theory Spec2Isabelle
  imports Main "HOL-Library.Sublist"
begin

section \<open>Values of the host language\<close>

text \<open>
  Documents are identified by their ObjectId, modelled as a natural number. A handler
  answers either with a payload or with \<open>res.status(n).json({success: false, message})\<close>,
  modelled as \<open>HttpError n message\<close>. Roles and departments are the strings the
  JavaScript compares; a missing or null value is \<open>None\<close>.
\<close>

type_synonym oid = nat

datatype error = HttpError nat string

definition truthy :: "string option \<Rightarrow> bool" where
  "truthy v = (case v of None \<Rightarrow> False | Some s \<Rightarrow> s \<noteq> [])"

text \<open>\<open>String.prototype.includes\<close>: the argument occurs as a contiguous substring.\<close>

fun str_includes :: "string \<Rightarrow> string \<Rightarrow> bool" where
  "str_includes [] sub = (sub = [])"
| "str_includes (c # cs) sub = (prefix sub (c # cs) \<or> str_includes cs sub)"

text \<open>\<open>a || 0\<close> on an optional number.\<close>

definition or_zero :: "int option \<Rightarrow> int" where
  "or_zero v = (case v of None \<Rightarrow> 0 | Some n \<Rightarrow> n)"

text \<open>
  A \<open>Date\<close>, by the local-time components the code reads: \<open>getMonth\<close> counts from 0.
  \<open>new Date()\<close> is the wall clock, passed to a handler as its argument \<open>now\<close>.
\<close>

record js_date =
  getFullYear :: nat
  getMonth :: nat
  getHours :: nat
  getMinutes :: nat

text \<open>
  \<open>String.prototype.toLowerCase\<close> on ASCII letters and \<open>String.prototype.trim\<close>.
  A character is one of 256 code points; the white space of ECMAScript among them is
  tab, line feed, vertical tab, form feed, carriage return, space and no-break space.
\<close>

definition toLowerCase :: "string \<Rightarrow> string" where
  "toLowerCase str =
     map (\<lambda>c. case map_of (zip ''ABCDEFGHIJKLMNOPQRSTUVWXYZ'' ''abcdefghijklmnopqrstuvwxyz'') c of
                Some l \<Rightarrow> l
              | None \<Rightarrow> c) str"

definition is_space :: "char \<Rightarrow> bool" where
  "is_space c = (c = CHR '' '' \<or> c = CHR 0x09 \<or> c = CHR 0x0A \<or> c = CHR 0x0B
                 \<or> c = CHR 0x0C \<or> c = CHR 0x0D \<or> c = CHR 0xA0)"

definition trim :: "string \<Rightarrow> string" where
  "trim str = rev (dropWhile is_space (rev (dropWhile is_space str)))"

text \<open>The apostrophe of an error message, and \<open>Array.prototype.join\<close>.\<close>

definition apostrophe :: string where
  "apostrophe = [CHR 0x27]"

fun join_with :: "string \<Rightarrow> string list \<Rightarrow> string" where
  "join_with sep [] = []"
| "join_with sep [x] = x"
| "join_with sep (x # y # ys) = x @ sep @ join_with sep (y # ys)"

text \<open>
  \<open>path.extname\<close> of Node on a file name without directory separators (multer's
  \<open>originalname\<close>): from the last dot to the end; empty when there is no dot or the only
  dot is the first character.
\<close>

definition extname :: "string \<Rightarrow> string" where
  "extname p =
     (let tl_ext = rev (takeWhile (\<lambda>c. c \<noteq> CHR ''.'') (rev p))
      in if CHR ''.'' \<notin> set p then []
         else if length tl_ext + 1 = length p then []
         else if p = ''..'' then []
         else CHR ''.'' # tl_ext)"

section \<open>middleware/rbac.js\<close>

definition ROLE_HIERARCHY :: "(string \<times> nat) list" where
  "ROLE_HIERARCHY =
     [(''employee'', 1), (''technical_head'', 2), (''sales_head'', 2),
      (''finance_head'', 2), (''co-founder'', 3), (''founder'', 4)]"

text \<open>
  \<open>ROLE_HIERARCHY[role] || 0\<close>: a string that is not one of the six keys has level 0.
  (The roles the application stores are those of the schemas' enum; a lookup of an
  inherited property name such as \<open>constructor\<close> is not modelled.)
\<close>

definition getRoleLevel :: "string \<Rightarrow> nat" where
  "getRoleLevel r = (case map_of ROLE_HIERARCHY r of Some n \<Rightarrow> n | None \<Rightarrow> 0)"

definition canViewRole :: "string \<Rightarrow> string \<Rightarrow> bool" where
  "canViewRole viewerRole targetRole = (getRoleLevel viewerRole > getRoleLevel targetRole)"

definition getDepartmentFromRole :: "string \<Rightarrow> string option" where
  "getDepartmentFromRole r =
     (if r = ''technical_head'' then Some ''technical''
      else if r = ''sales_head'' then Some ''sales''
      else if r = ''finance_head'' then Some ''finance''
      else None)"

definition canAssignSalary :: "string \<Rightarrow> string \<Rightarrow> bool" where
  "canAssignSalary assignerRole targetRole =
     (if assignerRole \<noteq> ''founder'' \<and> assignerRole \<noteq> ''co-founder'' then False
      else getRoleLevel assignerRole > getRoleLevel targetRole)"

text \<open>The six role names of the schemas' \<open>enum\<close> (the list \<open>validRoles\<close> of changeUserRole).\<close>

definition validRoles :: "string list" where
  "validRoles = [''founder'', ''co-founder'', ''technical_head'', ''sales_head'',
                 ''finance_head'', ''employee'']"

section \<open>Documents and the store\<close>

text \<open>
  The fields are those the handlers read or write. The department of a Request, a
  Performance and a TaskSubmission is a required string of its schema; that of a user or
  a task may be null.
\<close>

definition departments :: "string list" where
  "departments = [''technical'', ''sales'', ''finance'']"

record user =
  uid :: oid
  name :: string
  email :: string
  role :: string
  department :: "string option"

record task =
  t_id :: oid
  assignedTo :: oid
  assignedBy :: oid
  t_department :: "string option"
  t_status :: string
  completedAt :: "js_date option"

text \<open>\<open>req.file\<close> as multer's disk storage hands it to the handler.\<close>

record upload =
  originalname :: string
  f_path :: string
  f_size :: nat
  mimetype :: string

record submission =
  sub_task :: oid
  submittedBy :: oid
  fileName :: string
  fileType :: string
  fileSize :: nat
  filePath :: string
  submittedAt :: js_date
  sub_department :: string

record request =
  r_id :: oid
  r_type :: string
  r_status :: string
  createdBy :: oid
  r_department :: string
  approvedBy :: "oid option"
  approvedAt :: "js_date option"
  rejectionReason :: "string option"

record notification =
  n_userId :: oid
  n_message :: string
  n_type :: string
  isRead :: bool
  relatedEntity :: "(string \<times> oid) option"

record score_breakdown =
  taskPoints :: int
  lateLoginPenalty :: int

record performance =
  employeeId :: oid
  p_month :: nat
  p_year :: nat
  p_department :: string
  totalScore :: int
  tasksCompleted :: int
  lateLogins :: int
  approvedLeaves :: int
  scoreBreakdown :: score_breakdown

record salary =
  s_id :: oid
  s_user :: oid
  s_month :: nat
  s_year :: nat
  basicSalary :: int
  allowances :: int
  deductions :: int
  netSalary :: int
  s_department :: string
  s_status :: string

record role_change_log =
  changedUserId :: oid
  oldRole :: string
  newRole :: string
  changedBy :: oid
  changedAt :: js_date
  l_reason :: string
  snapshot_name :: string
  snapshot_email :: string
  snapshot_department :: "string option"
  ipAddress :: "string option"
  userAgent :: "string option"

text \<open>
  The collections. Performance has a unique compound index on (employeeId, month, year),
  so it is a map from that key; the other collections keep their documents in insertion
  order. \<open>files\<close> are the paths present in the upload directory.
\<close>

record db =
  users :: "user list"
  tasks :: "task list"
  submissions :: "submission list"
  files :: "string list"
  requests :: "request list"
  notifications :: "notification list"
  performances :: "oid \<times> nat \<times> nat \<rightharpoonup> performance"
  salaries :: "salary list"
  roleChangeLogs :: "role_change_log list"

definition User_findById :: "user list \<Rightarrow> oid \<Rightarrow> user option" where
  "User_findById us i = find (\<lambda>u. uid u = i) us"

definition Task_findById :: "task list \<Rightarrow> oid \<Rightarrow> task option" where
  "Task_findById ts i = find (\<lambda>t. t_id t = i) ts"


definition Salary_findById :: "salary list \<Rightarrow> oid \<Rightarrow> salary option" where
  "Salary_findById ss i = find (\<lambda>x. s_id x = i) ss"

text \<open>\<open>doc.save()\<close> of a loaded document replaces the stored document of the same id.\<close>

definition Task_save :: "task \<Rightarrow> task list \<Rightarrow> task list" where
  "Task_save t ts = map (\<lambda>x. if t_id x = t_id t then t else x) ts"


definition User_save :: "user \<Rightarrow> user list \<Rightarrow> user list" where
  "User_save u us = map (\<lambda>x. if uid x = uid u then u else x) us"

text \<open>A fresh ObjectId for a created document.\<close>

definition fresh_id :: "oid list \<Rightarrow> oid" where
  "fresh_id ids = Suc (foldr max ids 0)"

section \<open>controllers/salaryController.js\<close>

text \<open>
  Amounts are whole numbers. The Salary collection stores the document the handler
  writes; an update sets the fields of the update document.
\<close>

record salary_create_body =
  c_userId :: oid
  c_month :: nat
  c_year :: nat
  c_basicSalary :: int
  c_allowances :: "int option"
  c_deductions :: "int option"

definition createSalary :: "user \<Rightarrow> salary_create_body \<Rightarrow> db \<Rightarrow> (error + salary) \<times> db" where
  "createSalary usr body s =
     (if role usr \<noteq> ''founder'' \<and> role usr \<noteq> ''co-founder'' then
        (Inl (HttpError 403 ''Only Founder and Co-Founder can create salary records''), s)
      else case User_findById (users s) (c_userId body) of
        None \<Rightarrow> (Inl (HttpError 404 ''User not found''), s)
      | Some targetUser \<Rightarrow>
          if getRoleLevel (role usr) \<le> getRoleLevel (role targetUser) then
            (Inl (HttpError 403 ''Can only assign salary to lower role levels''), s)
          else (case find (\<lambda>x. s_user x = c_userId body \<and> s_month x = c_month body
                                \<and> s_year x = c_year body) (salaries s) of
            Some existingSalary \<Rightarrow>
              (Inl (HttpError 400 ''Salary record already exists for this month/year''), s)
          | None \<Rightarrow>
              let net = c_basicSalary body + or_zero (c_allowances body)
                          - or_zero (c_deductions body);
                  doc = \<lparr> s_id = fresh_id (map s_id (salaries s)),
                          s_user = c_userId body,
                          s_month = c_month body,
                          s_year = c_year body,
                          basicSalary = c_basicSalary body,
                          allowances = or_zero (c_allowances body),
                          deductions = or_zero (c_deductions body),
                          netSalary = net,
                          s_department = (if truthy (department targetUser)
                                          then the (department targetUser) else ''management''),
                          s_status = ''pending'' \<rparr>
              in (Inr doc, s\<lparr>salaries := salaries s @ [doc]\<rparr>)))"

text \<open>
  The body of \<open>PUT /api/salaries/:id\<close>. \<open>updateData = { ...req.body }\<close> copies every
  field the caller sent, so the body is modelled with each stored field it may carry.
\<close>

record salary_update_body =
  b_basicSalary :: "int option"
  b_allowances :: "int option"
  b_deductions :: "int option"
  b_status :: "string option"
  b_netSalary :: "int option"

definition updateData_netSalary :: "salary_update_body \<Rightarrow> salary \<Rightarrow> int option" where
  "updateData_netSalary body doc =
     (if b_basicSalary body \<noteq> None \<or> b_allowances body \<noteq> None \<or> b_deductions body \<noteq> None
      then
        let newBasic = (case b_basicSalary body of Some v \<Rightarrow> v | None \<Rightarrow> basicSalary doc);
            newAllowances = (case b_allowances body of Some v \<Rightarrow> v | None \<Rightarrow> allowances doc);
            newDeductions = (case b_deductions body of Some v \<Rightarrow> v | None \<Rightarrow> deductions doc)
        in Some (newBasic + newAllowances - newDeductions)
      else b_netSalary body)"

text \<open>\<open>findByIdAndUpdate\<close> sets the fields present in the update document.\<close>

definition apply_salary_update :: "salary_update_body \<Rightarrow> int option \<Rightarrow> salary \<Rightarrow> salary" where
  "apply_salary_update body net doc =
     doc\<lparr> basicSalary := (case b_basicSalary body of Some v \<Rightarrow> v | None \<Rightarrow> basicSalary doc),
          allowances := (case b_allowances body of Some v \<Rightarrow> v | None \<Rightarrow> allowances doc),
          deductions := (case b_deductions body of Some v \<Rightarrow> v | None \<Rightarrow> deductions doc),
          s_status := (case b_status body of Some v \<Rightarrow> v | None \<Rightarrow> s_status doc),
          netSalary := (case net of Some v \<Rightarrow> v | None \<Rightarrow> netSalary doc) \<rparr>"

definition updateSalary :: "user \<Rightarrow> oid \<Rightarrow> salary_update_body \<Rightarrow> db \<Rightarrow> (error + salary) \<times> db" where
  "updateSalary usr i body s =
     (if role usr \<noteq> ''founder'' \<and> role usr \<noteq> ''co-founder'' then
        (Inl (HttpError 403 ''Only Founder and Co-Founder can update salary records''), s)
      else case Salary_findById (salaries s) i of
        None \<Rightarrow> (Inl (HttpError 404 ''Salary record not found''), s)
      | Some doc \<Rightarrow>
          (case User_findById (users s) (s_user doc) of
            None \<Rightarrow>
              (Inl (HttpError 500 (''Cannot read properties of null (reading '' @ apostrophe
                      @ ''role'' @ apostrophe @ '')'')), s)
          | Some owner \<Rightarrow>
              if getRoleLevel (role usr) \<le> getRoleLevel (role owner) then
                (Inl (HttpError 403 ''Can only update salary of lower role levels''), s)
              else
                let doc' = apply_salary_update body (updateData_netSalary body doc) doc
                in (Inr doc',
                    s\<lparr>salaries := map (\<lambda>x. if s_id x = i then doc' else x) (salaries s)\<rparr>)))"

definition net_ok :: "salary \<Rightarrow> bool" where
  "net_ok doc = (netSalary doc = basicSalary doc + allowances doc - deductions doc)"



section \<open>services/notificationService.js\<close>

definition notification_types :: "string list" where
  "notification_types = [''login_success'', ''request_approved'', ''request_rejected'',
                         ''role_changed'', ''task_assigned'', ''task_completed'', ''system'']"

text \<open>
  \<open>Notification.create\<close> trims the message and validates it (required, at most 500
  characters) and the type (the schema's enum). createNotification catches the failure and
  returns null: nothing is stored. The free-form \<open>metadata\<close> is not modelled.
\<close>

definition createNotification ::
  "oid \<Rightarrow> string \<Rightarrow> string \<Rightarrow> (string \<times> oid) option \<Rightarrow> notification list
     \<Rightarrow> notification option \<times> notification list" where
  "createNotification userId message ntype related ns =
     (let doc = \<lparr> n_userId = userId, n_message = trim message, n_type = ntype,
                  isRead = False, relatedEntity = related \<rparr>
      in if trim message = [] \<or> length (trim message) > 500 \<or> ntype \<notin> set notification_types
         then (None, ns)
         else (Some doc, ns @ [doc]))"



definition notifyRoleChanged ::
  "oid \<Rightarrow> string \<Rightarrow> string \<Rightarrow> string \<Rightarrow> notification list
     \<Rightarrow> notification option \<times> notification list" where
  "notifyRoleChanged userId old new changedByName ns =
     createNotification userId
       (''Your role has been changed from '' @ old @ '' to '' @ new @ '' by ''
          @ changedByName @ ''.'')
       ''role_changed'' None ns"

section \<open>services/performanceService.js\<close>

definition POINTS_TASK_COMPLETED :: int where
  "POINTS_TASK_COMPLETED = 10"

definition POINTS_LATE_LOGIN :: int where
  "POINTS_LATE_LOGIN = - 5"

definition LATE_LOGIN_THRESHOLD_HOUR :: nat where
  "LATE_LOGIN_THRESHOLD_HOUR = 9"

definition LATE_LOGIN_THRESHOLD_MINUTE :: nat where
  "LATE_LOGIN_THRESHOLD_MINUTE = 30"

text \<open>
  The Performance schema: department is one of the three departments, month lies in
  1..12. \<open>Performance.create\<close> throws on a document that fails it; the callers catch
  the exception and return null.
\<close>

definition Performance_valid :: "performance \<Rightarrow> bool" where
  "Performance_valid p =
     (p_department p \<in> set departments \<and> 1 \<le> p_month p \<and> p_month p \<le> 12)"

definition getOrCreatePerformance ::
  "oid \<Rightarrow> nat \<Rightarrow> nat \<Rightarrow> string \<Rightarrow> (oid \<times> nat \<times> nat \<rightharpoonup> performance)
     \<Rightarrow> (performance \<times> (oid \<times> nat \<times> nat \<rightharpoonup> performance)) option" where
  "getOrCreatePerformance emp month year dept perfs =
     (case perfs (emp, month, year) of
        Some performance \<Rightarrow> Some (performance, perfs)
      | None \<Rightarrow>
          let created = \<lparr> employeeId = emp, p_month = month, p_year = year,
                          p_department = dept, totalScore = 0, tasksCompleted = 0,
                          lateLogins = 0, approvedLeaves = 0,
                          scoreBreakdown = \<lparr> taskPoints = 0, lateLoginPenalty = 0 \<rparr> \<rparr>
          in if Performance_valid created
             then Some (created, perfs((emp, month, year) \<mapsto> created))
             else None)"

text \<open>\<open>performance.save()\<close> writes the document back under the key it was loaded by.\<close>

definition Performance_save ::
  "oid \<times> nat \<times> nat \<Rightarrow> performance \<Rightarrow> (oid \<times> nat \<times> nat \<rightharpoonup> performance)
     \<Rightarrow> (oid \<times> nat \<times> nat \<rightharpoonup> performance)" where
  "Performance_save k p perfs = perfs(k \<mapsto> p)"

definition onTaskCompleted :: "oid \<Rightarrow> oid \<Rightarrow> js_date \<Rightarrow> db \<Rightarrow> performance option \<times> db" where
  "onTaskCompleted emp taskId now s =
     (case User_findById (users s) emp of
        None \<Rightarrow> (None, s)
      | Some usr \<Rightarrow>
          if \<not> truthy (department usr) then (None, s)
          else
            let month = getMonth now + 1; year = getFullYear now
            in (case getOrCreatePerformance emp month year (the (department usr))
                      (performances s) of
                 None \<Rightarrow> (None, s)
               | Some (performance, perfs) \<Rightarrow>
                   let p1 = performance\<lparr>tasksCompleted := tasksCompleted performance + 1\<rparr>;
                       p2 = p1\<lparr>scoreBreakdown := (scoreBreakdown p1)
                               \<lparr>taskPoints := taskPoints (scoreBreakdown p1)
                                                + POINTS_TASK_COMPLETED\<rparr>\<rparr>;
                       p3 = p2\<lparr>totalScore := taskPoints (scoreBreakdown p2)
                                                + lateLoginPenalty (scoreBreakdown p2)\<rparr>
                   in (Some p3, s\<lparr>performances := Performance_save (emp, month, year) p3 perfs\<rparr>)))"

definition isLateLogin :: "js_date \<Rightarrow> nat \<Rightarrow> nat \<Rightarrow> bool" where
  "isLateLogin loginTime thresholdHour thresholdMinute =
     (if getHours loginTime > thresholdHour then True
      else if getHours loginTime = thresholdHour \<and> getMinutes loginTime > thresholdMinute
      then True
      else False)"

definition onLateLogin :: "oid \<Rightarrow> js_date \<Rightarrow> db \<Rightarrow> performance option \<times> db" where
  "onLateLogin emp loginTime s =
     (if \<not> isLateLogin loginTime LATE_LOGIN_THRESHOLD_HOUR LATE_LOGIN_THRESHOLD_MINUTE
      then (None, s)
      else case User_findById (users s) emp of
        None \<Rightarrow> (None, s)
      | Some usr \<Rightarrow>
          if \<not> truthy (department usr) then (None, s)
          else
            let month = getMonth loginTime + 1; year = getFullYear loginTime
            in (case getOrCreatePerformance emp month year (the (department usr))
                      (performances s) of
                 None \<Rightarrow> (None, s)
               | Some (performance, perfs) \<Rightarrow>
                   let p1 = performance\<lparr>lateLogins := lateLogins performance + 1\<rparr>;
                       p2 = p1\<lparr>scoreBreakdown := (scoreBreakdown p1)
                               \<lparr>lateLoginPenalty := lateLoginPenalty (scoreBreakdown p1)
                                                      + POINTS_LATE_LOGIN\<rparr>\<rparr>;
                       p3 = p2\<lparr>totalScore := taskPoints (scoreBreakdown p2)
                                                + lateLoginPenalty (scoreBreakdown p2)\<rparr>
                   in (Some p3, s\<lparr>performances := Performance_save (emp, month, year) p3 perfs\<rparr>)))"

definition onLeaveApproved :: "oid \<Rightarrow> js_date \<Rightarrow> db \<Rightarrow> performance option \<times> db" where
  "onLeaveApproved emp now s =
     (case User_findById (users s) emp of
        None \<Rightarrow> (None, s)
      | Some usr \<Rightarrow>
          if \<not> truthy (department usr) then (None, s)
          else
            let month = getMonth now + 1; year = getFullYear now
            in (case getOrCreatePerformance emp month year (the (department usr))
                      (performances s) of
                 None \<Rightarrow> (None, s)
               | Some (performance, perfs) \<Rightarrow>
                   let p1 = performance\<lparr>approvedLeaves := approvedLeaves performance + 1\<rparr>
                   in (Some p1, s\<lparr>performances := Performance_save (emp, month, year) p1 perfs\<rparr>)))"

text \<open>A sequence of calls of the three hooks, each with its own arguments and clock.\<close>

datatype perf_call =
    TaskCompleted oid oid js_date
  | LateLogin oid js_date
  | LeaveApproved oid js_date

fun perf_step :: "db \<Rightarrow> perf_call \<Rightarrow> db" where
  "perf_step s (TaskCompleted emp taskId now) = snd (onTaskCompleted emp taskId now s)"
| "perf_step s (LateLogin emp loginTime) = snd (onLateLogin emp loginTime s)"
| "perf_step s (LeaveApproved emp now) = snd (onLeaveApproved emp now s)"

definition perf_run :: "perf_call list \<Rightarrow> db \<Rightarrow> db" where
  "perf_run calls s = foldl perf_step s calls"

definition score_ok :: "performance \<Rightarrow> bool" where
  "score_ok p =
     (totalScore p = taskPoints (scoreBreakdown p) + lateLoginPenalty (scoreBreakdown p))"

section \<open>services/roleChangeService.js\<close>

record role_change_params =
  p_changedUserId :: oid
  p_oldRole :: string
  p_newRole :: string
  p_changedBy :: oid
  p_changedByName :: "string option"
  p_reason :: "string option"
  p_snapshot_name :: string
  p_snapshot_email :: string
  p_snapshot_department :: "string option"
  p_ipAddress :: "string option"
  p_userAgent :: "string option"

text \<open>
  The RoleChangeLog schema: both roles are in the enum of six roles, the trimmed reason
  has at most 500 characters. A destructuring default applies to an undefined argument.
\<close>

definition RoleChangeLog_valid :: "role_change_log \<Rightarrow> bool" where
  "RoleChangeLog_valid l =
     (oldRole l \<in> set validRoles \<and> newRole l \<in> set validRoles \<and> length (l_reason l) \<le> 500)"

definition logRoleChange :: "role_change_params \<Rightarrow> js_date \<Rightarrow> db \<Rightarrow> role_change_log option \<times> db" where
  "logRoleChange ps now s =
     (if p_oldRole ps = p_newRole ps then (None, s)
      else
        let changedByName = (case p_changedByName ps of None \<Rightarrow> ''Administrator'' | Some n \<Rightarrow> n);
            reason = (case p_reason ps of None \<Rightarrow> [] | Some r \<Rightarrow> r);
            logEntry = \<lparr> changedUserId = p_changedUserId ps, oldRole = p_oldRole ps,
                         newRole = p_newRole ps, changedBy = p_changedBy ps, changedAt = now,
                         l_reason = trim reason,
                         snapshot_name = p_snapshot_name ps,
                         snapshot_email = p_snapshot_email ps,
                         snapshot_department = p_snapshot_department ps,
                         ipAddress = p_ipAddress ps, userAgent = p_userAgent ps \<rparr>
        in if \<not> RoleChangeLog_valid logEntry then (None, s)
           else
             (Some logEntry,
              s\<lparr> roleChangeLogs := roleChangeLogs s @ [logEntry],
                  notifications :=
                    snd (notifyRoleChanged (p_changedUserId ps) (p_oldRole ps) (p_newRole ps)
                           changedByName (notifications s)) \<rparr>))"

section \<open>controllers/requestController.js\<close>



text \<open>
  A query object is the conjunction of its conditions; \<open>find\<close> returns the documents
  matching all of them. \<open>sort\<close>, \<open>populate\<close> and \<open>select\<close> reorder or decorate the
  result and do not change which documents are returned.
\<close>

datatype request_cond =
    R_department "string option"
  | R_createdBy oid
  | R_status string
  | R_type string

fun request_matches :: "request_cond \<Rightarrow> request \<Rightarrow> bool" where
  "request_matches (R_department d) r = (Some (r_department r) = d)"
| "request_matches (R_createdBy i) r = (createdBy r = i)"
| "request_matches (R_status st) r = (r_status r = st)"
| "request_matches (R_type ty) r = (r_type r = ty)"

definition Request_find :: "request_cond list \<Rightarrow> request list \<Rightarrow> request list" where
  "Request_find q rs = filter (\<lambda>r. list_all (\<lambda>c. request_matches c r) q) rs"

definition getRequests ::
  "user \<Rightarrow> string option \<Rightarrow> string option \<Rightarrow> request list \<Rightarrow> request list" where
  "getRequests usr query_status query_type rs =
     (let q0 = (if role usr = ''founder'' \<or> role usr = ''co-founder'' then []
                else if str_includes (role usr) ''_head''
                  then [R_department (getDepartmentFromRole (role usr))]
                else if role usr = ''employee'' then [R_createdBy (uid usr)]
                else []);
          q1 = (if truthy query_status then q0 @ [R_status (the query_status)] else q0);
          q2 = (if truthy query_type then q1 @ [R_type (the query_type)] else q1)
      in Request_find q2 rs)"

section \<open>The list handlers of the task and user controllers, the filters of middleware/rbac.js\<close>

datatype task_cond =
    T_department "string option"
  | T_assignedTo oid

fun task_matches :: "task_cond \<Rightarrow> task \<Rightarrow> bool" where
  "task_matches (T_department d) t = (t_department t = d)"
| "task_matches (T_assignedTo i) t = (assignedTo t = i)"

definition Task_find :: "task_cond list \<Rightarrow> task list \<Rightarrow> task list" where
  "Task_find q ts = filter (\<lambda>t. list_all (\<lambda>c. task_matches c t) q) ts"

definition getTasks :: "user \<Rightarrow> task list \<Rightarrow> task list" where
  "getTasks usr ts =
     (let q = (if role usr = ''founder'' then []
               else if role usr = ''co-founder'' then []
               else if str_includes (role usr) ''_head''
                 then [T_department (getDepartmentFromRole (role usr))]
               else if role usr = ''employee'' then [T_assignedTo (uid usr)]
               else [])
      in Task_find q ts)"

datatype user_cond =
    U_role string
  | U_role_ne string
  | U_department "string option"
  | U_id oid

fun user_matches :: "user_cond \<Rightarrow> user \<Rightarrow> bool" where
  "user_matches (U_role r) u = (role u = r)"
| "user_matches (U_role_ne r) u = (role u \<noteq> r)"
| "user_matches (U_department d) u = (department u = d)"
| "user_matches (U_id i) u = (uid u = i)"

definition User_find :: "user_cond list \<Rightarrow> user list \<Rightarrow> user list" where
  "User_find q us = filter (\<lambda>u. list_all (\<lambda>c. user_matches c u) q) us"

definition getUsers :: "user \<Rightarrow> user list \<Rightarrow> error + user list" where
  "getUsers usr us =
     (if role usr = ''founder'' then Inr (User_find [] us)
      else if role usr = ''co-founder'' then Inr (User_find [U_role_ne ''founder''] us)
      else if str_includes (role usr) ''_head'' then
        Inr (User_find [U_role ''employee'',
                        U_department (getDepartmentFromRole (role usr))] us)
      else if role usr = ''employee'' then
        Inl (HttpError 403 ''Employees are not authorized to view user list'')
      else Inr (User_find [] us))"

text \<open>\<open>enforceRoleHierarchy\<close> of middleware/rbac.js: the \<open>req.roleFilter\<close> it sets.\<close>

definition enforceRoleHierarchy :: "user \<Rightarrow> user_cond list" where
  "enforceRoleHierarchy usr =
     (if role usr = ''founder'' then []
      else if role usr = ''co-founder'' then [U_role_ne ''founder'']
      else if str_includes (role usr) ''_head'' then
        [U_role ''employee'', U_department (getDepartmentFromRole (role usr))]
      else if role usr = ''employee'' then [U_id (uid usr)]
      else [])"

definition canAccessUser :: "user \<Rightarrow> user \<Rightarrow> bool" where
  "canAccessUser currentUser targetUser =
     (if role currentUser = ''founder'' then True
      else if role currentUser = ''co-founder'' then role targetUser \<noteq> ''founder''
      else if str_includes (role currentUser) ''_head'' then
        role targetUser = ''employee''
          \<and> department targetUser = getDepartmentFromRole (role currentUser)
      else if role currentUser = ''employee'' then uid currentUser = uid targetUser
      else False)"

section \<open>routes/taskRoutes.js: completing a task with a file\<close>

text \<open>
  The TaskSubmission schema (models/TaskSubmission.js): department, fileName and filePath
  are required, fileType is pdf or csv, and the task reference carries a unique index.
  \<open>TaskSubmission.create\<close> throws a ValidationError whose message lists the failing
  paths, or the duplicate-key error of the index (whose message goes on to name the
  collection, the index and the key, which are not modelled).
\<close>

definition required_error :: "string \<Rightarrow> string" where
  "required_error path = path @ '': Path `'' @ path @ ''` is required.''"

definition TaskSubmission_errors :: "string \<Rightarrow> string \<Rightarrow> string \<Rightarrow> string option \<Rightarrow> string list" where
  "TaskSubmission_errors fname ftype fpath dept =
     (if fname = [] then [required_error ''fileName''] else [])
     @ (if ftype = [] then [required_error ''fileType'']
        else if ftype \<notin> set [''pdf'', ''csv''] then
          [''fileType: `'' @ ftype @ ''` is not a valid enum value for path `fileType`.'']
        else [])
     @ (if fpath = [] then [required_error ''filePath''] else [])
     @ (if \<not> truthy dept then [required_error ''department''] else [])"

definition TaskSubmission_create ::
  "oid \<Rightarrow> oid \<Rightarrow> string \<Rightarrow> string \<Rightarrow> nat \<Rightarrow> string \<Rightarrow> js_date \<Rightarrow> string option
     \<Rightarrow> submission list \<Rightarrow> string + (submission \<times> submission list)" where
  "TaskSubmission_create tsk usr fname ftype fsize fpath at dept subs =
     (if TaskSubmission_errors fname ftype fpath dept \<noteq> [] then
        Inl (''TaskSubmission validation failed: ''
               @ join_with '', '' (TaskSubmission_errors fname ftype fpath dept))
      else if tsk \<in> set (map sub_task subs) then
        Inl ''E11000 duplicate key error''
      else
        let doc = \<lparr> sub_task = tsk, submittedBy = usr, fileName = fname, fileType = ftype,
                     fileSize = fsize, filePath = fpath, submittedAt = at,
                     sub_department = the dept \<rparr>
        in Inr (doc, subs @ [doc]))"

text \<open>
  \<open>fs.unlinkSync(path); return res.status(n).json(...)\<close>: the file is removed and the
  error answered; unlinking a path that is not there throws, and the catch block answers
  500.
\<close>

definition unlink_and_reply :: "string \<Rightarrow> error \<Rightarrow> db \<Rightarrow> (error + 'a) \<times> db" where
  "unlink_and_reply p e s =
     (if p \<in> set (files s) then (Inl e, s\<lparr>files := removeAll p (files s)\<rparr>)
      else (Inl (HttpError 500 ''ENOENT: no such file or directory''), s))"

definition completeTaskHandler ::
  "user \<Rightarrow> oid \<Rightarrow> upload option \<Rightarrow> js_date \<Rightarrow> db \<Rightarrow> (error + task \<times> submission) \<times> db" where
  "completeTaskHandler usr i req_file now s =
     (case Task_findById (tasks s) i of
        None \<Rightarrow>
          (case req_file of
             None \<Rightarrow> (Inl (HttpError 404 ''Task not found''), s)
           | Some f \<Rightarrow> unlink_and_reply (f_path f) (HttpError 404 ''Task not found'') s)
      | Some tsk \<Rightarrow>
          if assignedTo tsk \<noteq> uid usr then
            (case req_file of
               None \<Rightarrow>
                 (Inl (HttpError 403 ''Only the assigned user can complete this task''), s)
             | Some f \<Rightarrow>
                 unlink_and_reply (f_path f)
                   (HttpError 403 ''Only the assigned user can complete this task'') s)
          else
            (case req_file of
               None \<Rightarrow>
                 (Inl (HttpError 400
                    ''File upload is mandatory for task completion. Please upload a PDF or CSV file.''),
                  s)
             | Some f \<Rightarrow>
                 let ext = toLowerCase (extname (originalname f))
                 in if ext \<noteq> ''.pdf'' \<and> ext \<noteq> ''.csv'' then
                      unlink_and_reply (f_path f)
                        (HttpError 400 ''Only PDF and CSV files are allowed'') s
                    else if t_status tsk = ''completed'' then
                      unlink_and_reply (f_path f)
                        (HttpError 400 ''Task is already completed'') s
                    else if find (\<lambda>x. sub_task x = t_id tsk) (submissions s) \<noteq> None then
                      unlink_and_reply (f_path f)
                        (HttpError 400 ''Submission already exists for this task'') s
                    else
                      let tsk' = tsk\<lparr>t_status := ''completed'', completedAt := Some now\<rparr>;
                          s1 = s\<lparr>tasks := Task_save tsk' (tasks s)\<rparr>
                      in (case TaskSubmission_create (t_id tsk') (uid usr) (originalname f)
                                 (remove1 CHR ''.'' ext) (f_size f) (f_path f) now
                                 (department usr) (submissions s1) of
                            Inl message \<Rightarrow>
                              (Inl (HttpError 500 message),
                               s1\<lparr>files := removeAll (f_path f) (files s1)\<rparr>)
                          | Inr (sub, subs) \<Rightarrow>
                              (Inr (tsk', sub), s1\<lparr>submissions := subs\<rparr>))))"

text \<open>
  The route \<open>POST /api/tasks/:id/complete\<close>: multer's \<open>upload.single\<close> runs first. A
  file its filter or its size limit refuses is not kept, and the error-handling middleware
  at the end of the router answers 400; an accepted file is on disk when the handler runs.
\<close>

definition fileFilter :: "upload \<Rightarrow> bool" where
  "fileFilter f =
     (toLowerCase (extname (originalname f)) \<in> set [''.pdf'', ''.csv'']
      \<or> mimetype f \<in> set [''application/pdf'', ''text/csv'', ''application/vnd.ms-excel''])"

definition POST_tasks_complete ::
  "user \<Rightarrow> oid \<Rightarrow> upload option \<Rightarrow> js_date \<Rightarrow> db \<Rightarrow> (error + task \<times> submission) \<times> db" where
  "POST_tasks_complete usr i req_file now s =
     (case req_file of
        None \<Rightarrow> completeTaskHandler usr i None now s
      | Some f \<Rightarrow>
          if \<not> fileFilter f then
            (Inl (HttpError 400 ''Only PDF and CSV files are allowed''), s)
          else if f_size f > 10 * 1024 * 1024 then
            (Inl (HttpError 400 ''File size too large. Maximum size is 10MB''), s)
          else
            completeTaskHandler usr i (Some f) now
              (s\<lparr>files := List.insert (f_path f) (files s)\<rparr>))"

text \<open>A sequence of completion attempts, each a request of its own.\<close>

record attempt =
  a_user :: user
  a_task :: oid
  a_file :: "upload option"
  a_now :: js_date

definition attempt_step :: "db \<Rightarrow> attempt \<Rightarrow> db" where
  "attempt_step s a = snd (POST_tasks_complete (a_user a) (a_task a) (a_file a) (a_now a) s)"

definition submissions_of :: "oid \<Rightarrow> db \<Rightarrow> submission list" where
  "submissions_of i s = filter (\<lambda>x. sub_task x = i) (submissions s)"

section \<open>controllers/userController.js and controllers/userManagementController.js\<close>

text \<open>
  Modelled from the spec: the User schema (models/User.js is not under src/). Section 3:
  a role is one of the six roles, a department is one of the three departments or null.
  \<open>User_errors\<close> lists the paths of a user that fail it, as a ValidationError does.
\<close>

definition enum_error :: "string \<Rightarrow> string \<Rightarrow> string" where
  "enum_error path v = path @ '': `'' @ v @ ''` is not a valid enum value for path `'' @ path @ ''`.''"

definition User_errors :: "string option \<Rightarrow> string option \<Rightarrow> string list" where
  "User_errors r d =
     (case r of
        None \<Rightarrow> []
      | Some v \<Rightarrow> if v \<in> set validRoles then [] else [enum_error ''role'' v])
     @ (case d of
          None \<Rightarrow> []
        | Some v \<Rightarrow> if v \<in> set departments then [] else [enum_error ''department'' v])"

definition User_valid :: "user \<Rightarrow> bool" where
  "User_valid u = (User_errors (Some (role u)) (department u) = [])"

text \<open>
  The body of \<open>PUT /api/users/:id\<close> is the parsed JSON of the request, and updateUser hands
  it whole to \<open>findByIdAndUpdate\<close>. It is modelled by the keys that bear on a user: the
  top-level keys \<open>name\<close>, \<open>email\<close>, \<open>role\<close>, \<open>department\<close>, and the same keys under the
  update operator \<open>$set\<close> when the body carries one. Mongoose reads a top-level key as
  \<open>$set\<close> of that key, and a top-level key wins over the same key under \<open>$set\<close>. Other
  operators and other paths are not modelled.
\<close>

record user_fields =
  f_name :: "string option"
  f_email :: "string option"
  f_role :: "string option"
  f_department :: "string option"

record user_update_body =
  ub_name :: "string option"
  ub_email :: "string option"
  ub_role :: "string option"
  ub_department :: "string option"
  ub_set :: "user_fields option"

definition or_else :: "'a option \<Rightarrow> 'a option \<Rightarrow> 'a option" where
  "or_else a b = (case a of Some v \<Rightarrow> Some v | None \<Rightarrow> b)"

definition update_document :: "user_update_body \<Rightarrow> user_fields" where
  "update_document body =
     (case ub_set body of
        None \<Rightarrow>
          \<lparr> f_name = ub_name body, f_email = ub_email body, f_role = ub_role body,
            f_department = ub_department body \<rparr>
      | Some st \<Rightarrow>
          \<lparr> f_name = or_else (ub_name body) (f_name st),
            f_email = or_else (ub_email body) (f_email st),
            f_role = or_else (ub_role body) (f_role st),
            f_department = or_else (ub_department body) (f_department st) \<rparr>)"

text \<open>
  Modelled from the spec: \<open>runValidators\<close> applies the same schema to the paths the update
  document sets.
\<close>

definition update_errors :: "user_fields \<Rightarrow> string list" where
  "update_errors upd = User_errors (f_role upd) (f_department upd)"

definition apply_user_update :: "user_fields \<Rightarrow> user \<Rightarrow> user" where
  "apply_user_update upd u =
     u\<lparr> name := (case f_name upd of Some v \<Rightarrow> v | None \<Rightarrow> name u),
        email := (case f_email upd of Some v \<Rightarrow> v | None \<Rightarrow> email u),
        role := (case f_role upd of Some v \<Rightarrow> v | None \<Rightarrow> role u),
        department := (case f_department upd of Some v \<Rightarrow> Some v | None \<Rightarrow> department u) \<rparr>"

definition updateUser :: "user \<Rightarrow> oid \<Rightarrow> user_update_body \<Rightarrow> db \<Rightarrow> (error + user) \<times> db" where
  "updateUser currentUser i body s =
     (case User_findById (users s) i of
        None \<Rightarrow> (Inl (HttpError 404 ''User not found''), s)
      | Some targetUser \<Rightarrow>
          if role currentUser = ''employee'' then
            (Inl (HttpError 403 ''Employees are not authorized to update users''), s)
          else if getRoleLevel (role currentUser) \<le> getRoleLevel (role targetUser) then
            (Inl (HttpError 403 ''Cannot update user of same or higher role level''), s)
          else if str_includes (role currentUser) ''_head''
                  \<and> (role targetUser \<noteq> ''employee''
                       \<or> department targetUser \<noteq> getDepartmentFromRole (role currentUser)) then
            (Inl (HttpError 403 ''You do not have permission to access this department.''), s)
          else if truthy (ub_role body)
                  \<and> getRoleLevel (the (ub_role body)) \<ge> getRoleLevel (role currentUser) then
            (Inl (HttpError 403 ''Cannot assign role equal to or higher than your own''), s)
          else
            let upd = update_document body;
                updatedUser = apply_user_update upd targetUser
            in if update_errors upd \<noteq> [] then
                 (Inl (HttpError 500
                    (''Validation failed: '' @ join_with '', '' (update_errors upd))), s)
               else (Inr updatedUser, s\<lparr>users := User_save updatedUser (users s)\<rparr>))"

record change_role_body =
  cr_newRole :: "string option"
  cr_reason :: "string option"
  cr_department :: "string option"

record change_role_data =
  d_id :: oid
  d_name :: string
  d_email :: string
  d_oldRole :: string
  d_newRole :: string
  d_department :: "string option"

text \<open>The department that goes with the new role (the if-chain of changeUserRole).\<close>

definition new_department :: "string \<Rightarrow> user \<Rightarrow> string option \<Rightarrow> error + string option" where
  "new_department newR targetUser body_department =
     (if str_includes newR ''_head'' then
        (if truthy body_department \<and> body_department \<noteq> getDepartmentFromRole newR then
           Inl (HttpError 400
             (''Department head role '' @ newR @ '' must have department: ''
                @ (case getDepartmentFromRole newR of Some d \<Rightarrow> d | None \<Rightarrow> ''null'')))
         else Inr (getDepartmentFromRole newR))
      else if newR = ''founder'' \<or> newR = ''co-founder'' then Inr None
      else if newR = ''employee'' then
        (if \<not> truthy (department targetUser) \<and> \<not> truthy body_department then
           Inl (HttpError 400 ''Department is required for employees'')
         else Inr (if truthy body_department then body_department
                   else department targetUser))
      else Inr (department targetUser))"

text \<open>
  changeUserRole in two parts: the checks on the actor, the new role and the target, and
  then (\<open>changeUserRole_commit\<close>) the department that goes with the new role, the save
  of the user, the audit log and the answer.
\<close>

definition changeUserRole_commit ::
  "user \<Rightarrow> user \<Rightarrow> string \<Rightarrow> change_role_body \<Rightarrow> string option \<Rightarrow> string option \<Rightarrow> js_date
     \<Rightarrow> db \<Rightarrow> (error + change_role_data) \<times> db" where
  "changeUserRole_commit currentUser targetUser newR body req_ip req_user_agent now s =
     (case new_department newR targetUser (cr_department body) of
        Inl e \<Rightarrow> (Inl e, s)
      | Inr newDepartment \<Rightarrow>
          let saved = targetUser\<lparr>role := newR, department := newDepartment\<rparr>
          in if \<not> User_valid saved then
               (Inl (HttpError 500
                  (''User validation failed: ''
                     @ join_with '', '' (User_errors (Some (role saved)) (department saved)))),
                s)
             else
               let s1 = s\<lparr>users := User_save saved (users s)\<rparr>;
                   s2 = snd (logRoleChange
                          \<lparr> p_changedUserId = uid targetUser,
                            p_oldRole = role targetUser,
                            p_newRole = newR,
                            p_changedBy = uid currentUser,
                            p_changedByName = Some (name currentUser),
                            p_reason = Some (if truthy (cr_reason body)
                                             then the (cr_reason body) else []),
                            p_snapshot_name = name targetUser,
                            p_snapshot_email = email targetUser,
                            p_snapshot_department = department targetUser,
                            p_ipAddress = (if truthy req_ip then req_ip else None),
                            p_userAgent = (if truthy req_user_agent
                                           then req_user_agent else None) \<rparr>
                          now s1)
               in (Inr \<lparr> d_id = uid saved, d_name = name saved,
                          d_email = email saved, d_oldRole = role targetUser,
                          d_newRole = newR, d_department = department saved \<rparr>,
                   s2))"

definition changeUserRole ::
  "user \<Rightarrow> oid \<Rightarrow> change_role_body \<Rightarrow> string option \<Rightarrow> string option \<Rightarrow> js_date \<Rightarrow> db
     \<Rightarrow> (error + change_role_data) \<times> db" where
  "changeUserRole currentUser targetUserId body req_ip req_user_agent now s =
     (if role currentUser \<noteq> ''founder'' \<and> role currentUser \<noteq> ''co-founder'' then
        (Inl (HttpError 403 ''Only Founder and Co-Founder can change user roles''), s)
      else if \<not> truthy (cr_newRole body) \<or> the (cr_newRole body) \<notin> set validRoles then
        (Inl (HttpError 400
           ''Invalid role. Must be one of: founder, co-founder, technical_head, sales_head, finance_head, employee''),
         s)
      else
        (case User_findById (users s) targetUserId of
           None \<Rightarrow> (Inl (HttpError 404 ''User not found''), s)
         | Some targetUser \<Rightarrow>
             if getRoleLevel (role currentUser) \<le> getRoleLevel (role targetUser) then
               (Inl (HttpError 403
                  ''Cannot change role of user with same or higher role level''), s)
             else if getRoleLevel (the (cr_newRole body)) \<ge> getRoleLevel (role currentUser) then
               (Inl (HttpError 403
                  ''Cannot assign role equal to or higher than your own''), s)
             else if role targetUser = the (cr_newRole body) then
               (Inl (HttpError 400 ''User already has this role''), s)
             else
               changeUserRole_commit currentUser targetUser (the (cr_newRole body)) body
                 req_ip req_user_agent now s))"

section \<open>Predicates of the statements\<close>

text \<open>
  \<open>scores_ok\<close>: every bucket of the store satisfies the score equation.
  \<open>zero_bucket\<close>: the bucket getOrCreatePerformance creates when none exists.
  \<open>update_bucket\<close>: the shape the three performance hooks share (resolve the
  employee and the department, get or create the bucket of a month, change it, save it).
\<close>

definition scores_ok :: "db \<Rightarrow> bool" where
  "scores_ok s = (\<forall>k p. performances s k = Some p \<longrightarrow> score_ok p)"

definition zero_bucket :: "oid \<Rightarrow> nat \<Rightarrow> nat \<Rightarrow> string \<Rightarrow> performance" where
  "zero_bucket emp month year dept =
     \<lparr> employeeId = emp, p_month = month, p_year = year, p_department = dept,
       totalScore = 0, tasksCompleted = 0, lateLogins = 0, approvedLeaves = 0,
       scoreBreakdown = \<lparr> taskPoints = 0, lateLoginPenalty = 0 \<rparr> \<rparr>"

definition update_bucket ::
  "oid \<Rightarrow> nat \<Rightarrow> nat \<Rightarrow> (performance \<Rightarrow> performance) \<Rightarrow> db \<Rightarrow> performance option \<times> db" where
  "update_bucket emp month year f s =
     (case User_findById (users s) emp of
        None \<Rightarrow> (None, s)
      | Some usr \<Rightarrow>
          if \<not> truthy (department usr) then (None, s)
          else
            (case getOrCreatePerformance emp month year (the (department usr))
                    (performances s) of
               None \<Rightarrow> (None, s)
             | Some (p, perfs) \<Rightarrow>
                 (Some (f p), s\<lparr>performances := perfs((emp, month, year) \<mapsto> f p)\<rparr>)))"

text \<open>Strictly after 09:30, by the minute of the day.\<close>

definition after_0930 :: "js_date \<Rightarrow> bool" where
  "after_0930 t = (9 * 60 + 30 < getHours t * 60 + getMinutes t)"

definition bucket_or_zero ::
  "(oid \<times> nat \<times> nat \<rightharpoonup> performance) \<Rightarrow> oid \<Rightarrow> nat \<Rightarrow> nat \<Rightarrow> string \<Rightarrow> performance" where
  "bucket_or_zero perfs emp month year dept =
     (case perfs (emp, month, year) of
        Some p \<Rightarrow> p
      | None \<Rightarrow> zero_bucket emp month year dept)"

section \<open>The lists of the specification and of the code\<close>

text \<open>
  The visibility filter as the specification words it, on what a record shows of itself:
  the role and department it carries and the identity it belongs or is addressed to.
\<close>

record record_view =
  v_role :: string
  v_department :: "string option"
  v_identity :: oid

definition spec_visibilityFilter :: "user \<Rightarrow> record_view \<Rightarrow> bool" where
  "spec_visibilityFilter actor v =
     (if role actor = ''founder'' then True
      else if role actor = ''co-founder'' then v_role v \<noteq> ''founder''
      else if role actor \<in> {''technical_head'', ''sales_head'', ''finance_head''} then
        v_role v = ''employee'' \<and> v_department v = getDepartmentFromRole (role actor)
      else if role actor = ''employee'' then v_identity v = uid actor
      else False)"

definition user_view :: "user \<Rightarrow> record_view" where
  "user_view u = \<lparr> v_role = role u, v_department = department u, v_identity = uid u \<rparr>"

text \<open>A task shows the role of its assignee, its own department and its assignee.\<close>

definition task_view :: "user list \<Rightarrow> task \<Rightarrow> record_view" where
  "task_view us t =
     \<lparr> v_role = (case User_findById us (assignedTo t) of Some u \<Rightarrow> role u | None \<Rightarrow> []),
        v_department = t_department t, v_identity = assignedTo t \<rparr>"

text \<open>
  The lists as the specification words them: the records that pass its visibility
  filter.
\<close>

definition spec_user_list :: "user \<Rightarrow> user list \<Rightarrow> user list" where
  "spec_user_list actor us = filter (\<lambda>u. spec_visibilityFilter actor (user_view u)) us"

definition spec_task_list :: "user \<Rightarrow> user list \<Rightarrow> task list \<Rightarrow> task list" where
  "spec_task_list actor us ts = filter (\<lambda>t. spec_visibilityFilter actor (task_view us t)) ts"

text \<open>What the task and request lists of the code select.\<close>

definition task_visible :: "user \<Rightarrow> task \<Rightarrow> bool" where
  "task_visible actor t =
     (if role actor = ''founder'' \<or> role actor = ''co-founder'' then True
      else if role actor = ''employee'' then assignedTo t = uid actor
      else t_department t = getDepartmentFromRole (role actor))"

definition request_visible :: "user \<Rightarrow> request \<Rightarrow> bool" where
  "request_visible actor r =
     (if role actor = ''founder'' \<or> role actor = ''co-founder'' then True
      else if role actor = ''employee'' then createdBy r = uid actor
      else Some (r_department r) = getDepartmentFromRole (role actor))"

definition query_narrows :: "string option \<Rightarrow> string option \<Rightarrow> request \<Rightarrow> bool" where
  "query_narrows query_status query_type r =
     ((if truthy query_status then r_status r = the query_status else True)
      \<and> (if truthy query_type then r_type r = the query_type else True))"

section \<open>Example data\<close>

text \<open>A small company and its store, used to run the handlers on concrete requests.\<close>

definition founder_u :: user where
  "founder_u = \<lparr> uid = 1, name = ''Fay'', email = ''fay@example.com'', role = ''founder'',
                  department = None \<rparr>"

definition cofounder_u :: user where
  "cofounder_u = \<lparr> uid = 2, name = ''Cam'', email = ''cam@example.com'', role = ''co-founder'',
                    department = None \<rparr>"

definition tech_head_u :: user where
  "tech_head_u = \<lparr> uid = 3, name = ''Tao'', email = ''tao@example.com'',
                    role = ''technical_head'', department = Some ''technical'' \<rparr>"

definition sales_head_u :: user where
  "sales_head_u = \<lparr> uid = 4, name = ''Sol'', email = ''sol@example.com'',
                     role = ''sales_head'', department = Some ''sales'' \<rparr>"

definition tech_emp_u :: user where
  "tech_emp_u = \<lparr> uid = 5, name = ''Eli'', email = ''eli@example.com'', role = ''employee'',
                   department = Some ''technical'' \<rparr>"

definition sales_emp_u :: user where
  "sales_emp_u = \<lparr> uid = 6, name = ''Sam'', email = ''sam@example.com'', role = ''employee'',
                    department = Some ''sales'' \<rparr>"

definition march_salary :: salary where
  "march_salary = \<lparr> s_id = 1, s_user = 5, s_month = 3, s_year = 2025, basicSalary = 1000,
                     allowances = 200, deductions = 50, netSalary = 1150,
                     s_department = ''technical'', s_status = ''pending'' \<rparr>"

definition empty_db :: db where
  "empty_db = \<lparr> users = [], tasks = [], submissions = [], files = [], requests = [],
                 notifications = [], performances = Map.empty, salaries = [],
                 roleChangeLogs = [] \<rparr>"

definition company_db :: db where
  "company_db = empty_db\<lparr> users := [founder_u, cofounder_u, tech_head_u, sales_head_u,
                                      tech_emp_u, sales_emp_u],
                           salaries := [march_salary] \<rparr>"

definition same_role_params :: role_change_params where
  "same_role_params =
     \<lparr> p_changedUserId = 5, p_oldRole = ''employee'', p_newRole = ''employee'',
       p_changedBy = 1, p_changedByName = Some ''Fay'', p_reason = None,
       p_snapshot_name = ''Eli'', p_snapshot_email = ''eli@example.com'',
       p_snapshot_department = Some ''technical'', p_ipAddress = None, p_userAgent = None \<rparr>"

definition noon :: js_date where
  "noon = \<lparr> getFullYear = 2025, getMonth = 2, getHours = 12, getMinutes = 0 \<rparr>"

definition net_only_body :: salary_update_body where
  "net_only_body = \<lparr> b_basicSalary = None, b_allowances = None, b_deductions = None,
                      b_status = None, b_netSalary = Some 1 \<rparr>"

definition promote_body :: change_role_body where
  "promote_body = \<lparr> cr_newRole = Some ''technical_head'', cr_reason = Some ''team lead'',
                     cr_department = None \<rparr>"

definition escalate_body :: change_role_body where
  "escalate_body = \<lparr> cr_newRole = Some ''co-founder'', cr_reason = None,
                      cr_department = None \<rparr>"

definition escalate_update :: user_update_body where
  "escalate_update = \<lparr> ub_name = None, ub_email = None, ub_role = Some ''technical_head'',
                        ub_department = None, ub_set = None \<rparr>"

text \<open>The JSON body \<open>{"$set": {"role": "founder"}}\<close>, and the same with technical_head.\<close>

definition set_founder_body :: user_update_body where
  "set_founder_body =
     \<lparr> ub_name = None, ub_email = None, ub_role = None, ub_department = None,
       ub_set = Some \<lparr> f_name = None, f_email = None, f_role = Some ''founder'',
                       f_department = None \<rparr> \<rparr>"

definition set_head_body :: user_update_body where
  "set_head_body =
     \<lparr> ub_name = None, ub_email = None, ub_role = None, ub_department = None,
       ub_set = Some \<lparr> f_name = None, f_email = None, f_role = Some ''technical_head'',
                       f_department = None \<rparr> \<rparr>"

definition promoted_data :: change_role_data where
  "promoted_data = \<lparr> d_id = 5, d_name = ''Eli'', d_email = ''eli@example.com'',
                      d_oldRole = ''employee'', d_newRole = ''technical_head'',
                      d_department = Some ''technical'' \<rparr>"

subsection \<open>Logins and buckets\<close>

definition late_0945 :: js_date where
  "late_0945 = \<lparr> getFullYear = 2025, getMonth = 2, getHours = 9, getMinutes = 45 \<rparr>"

definition late_jan31 :: js_date where
  "late_jan31 = \<lparr> getFullYear = 2025, getMonth = 0, getHours = 23, getMinutes = 59 \<rparr>"

definition on_time_0930 :: js_date where
  "on_time_0930 = \<lparr> getFullYear = 2025, getMonth = 2, getHours = 9, getMinutes = 30 \<rparr>"

definition march_calls :: "perf_call list" where
  "march_calls = [TaskCompleted 5 1 noon, LateLogin 5 late_0945, LeaveApproved 5 noon]"

definition march_bucket :: performance where
  "march_bucket =
     \<lparr> employeeId = 5, p_month = 3, p_year = 2025, p_department = ''technical'',
       totalScore = 5, tasksCompleted = 1, lateLogins = 1, approvedLeaves = 1,
       scoreBreakdown = \<lparr> taskPoints = 10, lateLoginPenalty = - 5 \<rparr> \<rparr>"

definition march_db :: db where
  "march_db = company_db\<lparr>performances := [(5, 3, 2025) \<mapsto> march_bucket]\<rparr>"

subsection \<open>Requests\<close>

definition leave_req :: request where
  "leave_req = \<lparr> r_id = 1, r_type = ''leave'', r_status = ''pending'', createdBy = 5,
                  r_department = ''technical'', approvedBy = None, approvedAt = None,
                  rejectionReason = None \<rparr>"

definition approved_req :: request where
  "approved_req = \<lparr> r_id = 2, r_type = ''expense'', r_status = ''approved'', createdBy = 5,
                     r_department = ''technical'', approvedBy = Some 3, approvedAt = Some noon,
                     rejectionReason = None \<rparr>"


subsection \<open>Tasks and uploads\<close>

definition report_task :: task where
  "report_task = \<lparr> t_id = 1, assignedTo = 5, assignedBy = 3, t_department = Some ''technical'',
                    t_status = ''pending'', completedAt = None \<rparr>"

definition report_csv :: upload where
  "report_csv = \<lparr> originalname = ''report.csv'', f_path = ''uploads/tasks/task-1-17.csv'',
                   f_size = 42, mimetype = ''text/csv'' \<rparr>"

definition report_csv2 :: upload where
  "report_csv2 = \<lparr> originalname = ''Report2.CSV'', f_path = ''uploads/tasks/task-1-18.CSV'',
                    f_size = 64, mimetype = ''text/csv'' \<rparr>"

definition tasks_db :: db where
  "tasks_db = company_db\<lparr>tasks := [report_task]\<rparr>"

definition two_attempts :: "attempt list" where
  "two_attempts =
     [\<lparr> a_user = tech_emp_u, a_task = 1, a_file = Some report_csv, a_now = noon \<rparr>,
      \<lparr> a_user = tech_emp_u, a_task = 1, a_file = Some report_csv2, a_now = noon \<rparr>]"

definition completed_report_task :: task where
  "completed_report_task = report_task\<lparr>t_status := ''completed'', completedAt := Some noon\<rparr>"

definition report_submission :: submission where
  "report_submission =
     \<lparr> sub_task = 1, submittedBy = 5, fileName = ''report.csv'', fileType = ''csv'',
       fileSize = 42, filePath = ''uploads/tasks/task-1-17.csv'', submittedAt = noon,
       sub_department = ''technical'' \<rparr>"

definition after_first :: db where
  "after_first = tasks_db\<lparr> tasks := [completed_report_task],
                            submissions := [report_submission],
                            files := [''uploads/tasks/task-1-17.csv''] \<rparr>"

text \<open>
  A pending task of the technical department whose assignee has since become a
  co-founder and so has no department any more.
\<close>

definition audit_task :: task where
  "audit_task = \<lparr> t_id = 9, assignedTo = 2, assignedBy = 1, t_department = Some ''technical'',
                   t_status = ''pending'', completedAt = None \<rparr>"

definition audit_pdf :: upload where
  "audit_pdf = \<lparr> originalname = ''audit.pdf'', f_path = ''uploads/tasks/task-9-23.pdf'',
                  f_size = 1024, mimetype = ''application/pdf'' \<rparr>"

definition audit_db :: db where
  "audit_db = company_db\<lparr>tasks := [audit_task]\<rparr>"

subsection \<open>A task assigned to a department head\<close>

definition head_task :: task where
  "head_task = \<lparr> t_id = 2, assignedTo = 3, assignedBy = 1, t_department = Some ''technical'',
                  t_status = ''pending'', completedAt = None \<rparr>"

section \<open>Properties: role levels\<close>

lemma getRoleLevel_simps:
  "getRoleLevel ''employee'' = 1"
  "getRoleLevel ''technical_head'' = 2"
  "getRoleLevel ''sales_head'' = 2"
  "getRoleLevel ''finance_head'' = 2"
  "getRoleLevel ''co-founder'' = 3"
  "getRoleLevel ''founder'' = 4"
  by (simp_all add: getRoleLevel_def ROLE_HIERARCHY_def)

section \<open>Properties: salary mutation is limited to the top two roles\<close>

text \<open>
  C10. For every actor whose role is neither founder nor co-founder, createSalary and
  updateSalary answer 403 and return the store as it was, whatever the target and the
  body, and canAssignSalary is false whatever the target's role. The level comparison
  alone would admit a department head acting on an employee of the head's own
  department (level 2 above level 1).
\<close>

theorem salary_mutation_top_two_roles_only:
  assumes "role usr \<noteq> ''founder''" and "role usr \<noteq> ''co-founder''"
  shows "createSalary usr cbody s =
           (Inl (HttpError 403 ''Only Founder and Co-Founder can create salary records''), s)
       \<and> updateSalary usr i ubody s =
           (Inl (HttpError 403 ''Only Founder and Co-Founder can update salary records''), s)
       \<and> \<not> canAssignSalary (role usr) targetRole"
  using assms by (simp add: createSalary_def updateSalary_def canAssignSalary_def)

theorem salary_mutation_top_two_roles_only_witness:
  "getRoleLevel (role tech_head_u) > getRoleLevel (role tech_emp_u)
   \<and> department tech_emp_u = getDepartmentFromRole (role tech_head_u)
   \<and> createSalary tech_head_u
        \<lparr> c_userId = 5, c_month = 4, c_year = 2025, c_basicSalary = 1000,
          c_allowances = None, c_deductions = None \<rparr> company_db
      = (Inl (HttpError 403 ''Only Founder and Co-Founder can create salary records''),
         company_db)
   \<and> updateSalary tech_head_u 1
        \<lparr> b_basicSalary = Some 1200, b_allowances = None, b_deductions = None,
          b_status = None, b_netSalary = None \<rparr> company_db
      = (Inl (HttpError 403 ''Only Founder and Co-Founder can update salary records''),
         company_db)
   \<and> \<not> canAssignSalary (role tech_head_u) (role tech_emp_u)"
  using salary_mutation_top_two_roles_only [of tech_head_u
      "\<lparr> c_userId = 5, c_month = 4, c_year = 2025, c_basicSalary = 1000,
         c_allowances = None, c_deductions = None \<rparr>" company_db 1
      "\<lparr> b_basicSalary = Some 1200, b_allowances = None, b_deductions = None,
         b_status = None, b_netSalary = None \<rparr>" "role tech_emp_u"]
  by (simp add: tech_head_u_def tech_emp_u_def getRoleLevel_simps getDepartmentFromRole_def)

section \<open>Properties: the role-change audit log\<close>

text \<open>
  C9. When the old role equals the new role, logRoleChange returns null and leaves the
  store as it was: no RoleChangeLog entry and no notification are created, and nothing is
  thrown to the caller.
\<close>

theorem logRoleChange_same_role_noop:
  assumes "p_oldRole ps = p_newRole ps"
  shows "logRoleChange ps now s = (None, s)"
  using assms by (simp add: logRoleChange_def)

theorem logRoleChange_same_role_noop_witness:
  "fst (logRoleChange same_role_params noon company_db) = None
   \<and> roleChangeLogs (snd (logRoleChange same_role_params noon company_db)) = []
   \<and> notifications (snd (logRoleChange same_role_params noon company_db)) = []"
  using logRoleChange_same_role_noop [of same_role_params noon company_db]
  by (simp add: same_role_params_def company_db_def empty_db_def)

section \<open>Properties: the net salary\<close>

text \<open>
  What holds: createSalary stores a net salary that satisfies the equation, an update that
  supplies one of the three amounts recomputes it, and an update that supplies neither an
  amount nor a net salary keeps a record that satisfied it.
\<close>

lemma createSalary_net_ok:
  assumes "createSalary usr body s = (Inr doc, s')"
  shows "net_ok doc \<and> salaries s' = salaries s @ [doc]"
  using assms
  by (auto simp: createSalary_def net_ok_def Let_def split: if_splits option.splits)

lemma updateSalary_recomputes:
  assumes "updateSalary usr i body s = (Inr doc', s')"
    and "b_basicSalary body \<noteq> None \<or> b_allowances body \<noteq> None \<or> b_deductions body \<noteq> None"
  shows "net_ok doc'"
  using assms
  by (auto simp: updateSalary_def net_ok_def Let_def updateData_netSalary_def
      apply_salary_update_def split: if_splits option.splits)

lemma updateSalary_without_amounts_keeps:
  assumes "updateSalary usr i body s = (Inr doc', s')"
    and "b_basicSalary body = None" "b_allowances body = None" "b_deductions body = None"
    and "b_netSalary body = None"
    and "Salary_findById (salaries s) i = Some doc" and "net_ok doc"
  shows "net_ok doc'"
  using assms
  by (auto simp: updateSalary_def net_ok_def Let_def updateData_netSalary_def
      apply_salary_update_def split: if_splits option.splits)

text \<open>
  C8. The equation netSalary = basicSalary + allowances - deductions does not hold after
  every update: updateSalary copies the whole body into the update document and recomputes
  netSalary only when the body carries one of the three amounts, so a body that carries
  netSalary alone is stored as sent. Here the founder sends netSalary = 1 for a record with
  1000 + 200 - 50.
\<close>

theorem updateSalary_stores_supplied_netSalary:
  "net_ok march_salary
   \<and> updateSalary founder_u 1 net_only_body company_db
       = (Inr (march_salary\<lparr>netSalary := 1\<rparr>),
          company_db\<lparr>salaries := [march_salary\<lparr>netSalary := 1\<rparr>]\<rparr>)
   \<and> \<not> net_ok (march_salary\<lparr>netSalary := 1\<rparr>)"
  by (simp add: updateSalary_def net_only_body_def company_db_def empty_db_def
      march_salary_def founder_u_def cofounder_u_def tech_head_u_def sales_head_u_def
      tech_emp_u_def sales_emp_u_def Salary_findById_def User_findById_def
      getRoleLevel_simps net_ok_def updateData_netSalary_def apply_salary_update_def Let_def)

section \<open>Properties: role assignment\<close>

lemma User_findById_User_save:
  assumes "User_findById us i = Some t" and "uid u = i"
  shows "User_findById (User_save u us) i = Some u"
  using assms
  by (induction us) (auto simp: User_findById_def User_save_def)

lemma logRoleChange_users: "users (snd (logRoleChange ps now s)) = users s"
  by (simp add: logRoleChange_def Let_def)

lemma changeUserRole_commit_result:
  assumes "changeUserRole_commit cu t r body ip ua now s = (Inr d, s')"
  shows "d_newRole d = r
       \<and> (\<exists>saved. users s' = User_save saved (users s) \<and> uid saved = uid t \<and> role saved = r)"
  using assms
  by (auto simp: changeUserRole_commit_def Let_def logRoleChange_users
      split: sum.splits if_splits)

text \<open>
  What holds of changeUserRole: it succeeds only on a target strictly below the actor
  and with a new role strictly below the actor, and the user it stores then carries
  that role; a new role at or above the actor's level is refused with the store unchanged.
\<close>

lemma changeUserRole_success:
  assumes "changeUserRole cu tid body ip ua now s = (Inr d, s')"
  shows "\<exists>t saved. User_findById (users s) tid = Some t
           \<and> getRoleLevel (role t) < getRoleLevel (role cu)
           \<and> cr_newRole body = Some (d_newRole d)
           \<and> getRoleLevel (d_newRole d) < getRoleLevel (role cu)
           \<and> User_findById (users s') tid = Some saved
           \<and> role saved = d_newRole d"
proof -
  from assms obtain t where
    t: "User_findById (users s) tid = Some t"
    and lv: "getRoleLevel (role t) < getRoleLevel (role cu)"
    and nr: "cr_newRole body = Some (the (cr_newRole body))"
      "getRoleLevel (the (cr_newRole body)) < getRoleLevel (role cu)"
    and c: "changeUserRole_commit cu t (the (cr_newRole body)) body ip ua now s = (Inr d, s')"
    by (auto simp: changeUserRole_def truthy_def split: if_splits option.splits)
  from changeUserRole_commit_result [OF c] obtain saved where
    d: "d_newRole d = the (cr_newRole body)"
    and sv: "users s' = User_save saved (users s)" "uid saved = uid t"
      "role saved = the (cr_newRole body)"
    by blast
  from t have "uid t = tid"
    by (auto simp: User_findById_def dest: find_Some_iff [THEN iffD1])
  with t sv have "User_findById (users s') tid = Some saved"
    by (simp add: User_findById_User_save)
  with t lv nr d sv show ?thesis by auto
qed

lemma changeUserRole_refuses:
  assumes "cr_newRole body = Some r" and "getRoleLevel (role cu) \<le> getRoleLevel r"
  shows "\<exists>e. changeUserRole cu tid body ip ua now s = (Inl e, s)"
  using assms
  by (auto simp: changeUserRole_def split: option.splits)

text \<open>
  What holds of updateUser: a role sent as the top-level key \<open>role\<close> is stored only when
  its level is strictly below the actor's.
\<close>

lemma updateUser_top_level_role:
  assumes "updateUser cu tid body s = (Inr u', s')" and "ub_role body = Some r"
  shows "\<exists>t. User_findById (users s) tid = Some t
           \<and> getRoleLevel (role t) < getRoleLevel (role cu)
           \<and> role u' = r
           \<and> getRoleLevel r < getRoleLevel (role cu)
           \<and> User_findById (users s') tid = Some u'"
proof -
  from assms obtain t where
    t: "User_findById (users s) tid = Some t"
    and lv: "getRoleLevel (role t) < getRoleLevel (role cu)"
    and g: "\<not> (truthy (ub_role body)
               \<and> getRoleLevel (role cu) \<le> getRoleLevel (the (ub_role body)))"
    and ok: "update_errors (update_document body) = []"
    and u': "u' = apply_user_update (update_document body) t"
    and s': "users s' = User_save u' (users s)"
    by (auto simp: updateUser_def Let_def split: if_splits option.splits)
  from assms(2) have fr: "f_role (update_document body) = Some r"
    by (simp add: update_document_def or_else_def split: option.splits)
  with ok have "r \<in> set validRoles"
    by (auto simp: update_errors_def User_errors_def split: if_splits)
  then have "r \<noteq> []" by (auto simp: validRoles_def)
  with assms(2) g have r: "getRoleLevel r < getRoleLevel (role cu)"
    by (simp add: truthy_def)
  from fr u' have ru: "role u' = r" by (simp add: apply_user_update_def)
  from t have "uid t = tid"
    by (auto simp: User_findById_def dest: find_Some_iff [THEN iffD1])
  with u' have "uid u' = tid" by (simp add: apply_user_update_def)
  with t s' have "User_findById (users s') tid = Some u'"
    by (simp add: User_findById_User_save)
  with t lv r ru show ?thesis by simp
qed

lemma getRoleLevel_empty: "getRoleLevel [] = 0"
  by (simp add: getRoleLevel_def ROLE_HIERARCHY_def)

lemma updateUser_top_level_role_refused:
  assumes "ub_role body = Some r" and "getRoleLevel (role cu) \<le> getRoleLevel r"
  shows "\<exists>e. updateUser cu tid body s = (Inl e, s)"
proof (cases "r = []")
  case True
  with assms have "getRoleLevel (role cu) = 0" by (simp add: getRoleLevel_empty)
  then show ?thesis
    by (simp add: updateUser_def split: option.splits)
next
  case False
  with assms have "truthy (ub_role body)" by (simp add: truthy_def)
  with assms show ?thesis
    by (simp add: updateUser_def split: option.splits)
qed

text \<open>
  C2. Role assignment does escalate through updateUser. Its escalation check reads the
  top-level key \<open>role\<close> of the body only, and the whole body goes to
  \<open>findByIdAndUpdate\<close>; a role sent under the update operator \<open>$set\<close> passes unchecked.
  Here the technical head (level 2) updates an employee of the technical department
  with the body \<open>{"$set": {"role": "founder"}}\<close>: the update succeeds and the stored
  user has the role founder (level 4). The same body with technical_head stores a role
  of the actor's own level.
\<close>

theorem updateUser_set_operator_escalates:
  "updateUser tech_head_u 5 set_founder_body company_db
     = (Inr (tech_emp_u\<lparr>role := ''founder''\<rparr>),
        company_db\<lparr>users := [founder_u, cofounder_u, tech_head_u, sales_head_u,
                                tech_emp_u\<lparr>role := ''founder''\<rparr>, sales_emp_u]\<rparr>)
   \<and> getRoleLevel (role tech_head_u) < getRoleLevel ''founder''
   \<and> updateUser tech_head_u 5 set_head_body company_db
     = (Inr (tech_emp_u\<lparr>role := ''technical_head''\<rparr>),
        company_db\<lparr>users := [founder_u, cofounder_u, tech_head_u, sales_head_u,
                                tech_emp_u\<lparr>role := ''technical_head''\<rparr>, sales_emp_u]\<rparr>)
   \<and> getRoleLevel (role tech_head_u) = getRoleLevel ''technical_head''"
  by (simp add: updateUser_def set_founder_body_def set_head_body_def company_db_def
      empty_db_def User_findById_def User_save_def founder_u_def cofounder_u_def
      tech_head_u_def sales_head_u_def tech_emp_u_def sales_emp_u_def getRoleLevel_simps
      getDepartmentFromRole_def truthy_def update_document_def or_else_def update_errors_def
      User_errors_def validRoles_def apply_user_update_def Let_def)

theorem updateUser_set_operator_escalates_witness:
  "fst (updateUser tech_head_u 5 set_founder_body company_db)
     = Inr (tech_emp_u\<lparr>role := ''founder''\<rparr>)
   \<and> map role (users (snd (updateUser tech_head_u 5 set_founder_body company_db)))
     = [''founder'', ''co-founder'', ''technical_head'', ''sales_head'', ''founder'',
        ''employee'']
   \<and> getRoleLevel (role tech_head_u) < getRoleLevel ''founder''"
  using updateUser_set_operator_escalates
  by (simp add: founder_u_def cofounder_u_def tech_head_u_def sales_head_u_def
      tech_emp_u_def sales_emp_u_def)


section \<open>Properties: the performance score\<close>

lemma getOrCreatePerformance_cases:
  assumes "getOrCreatePerformance emp m y d perfs = Some (p, perfs')"
  shows "(perfs (emp, m, y) = Some p \<and> perfs' = perfs)
       \<or> (perfs (emp, m, y) = None \<and> p = zero_bucket emp m y d
           \<and> perfs' = perfs((emp, m, y) \<mapsto> p))"
  using assms
  by (auto simp: getOrCreatePerformance_def zero_bucket_def Let_def
      split: option.splits if_splits)

lemma getOrCreatePerformance_score_ok:
  assumes "getOrCreatePerformance emp m y d perfs = Some (p, perfs')"
    and "\<forall>k q. perfs k = Some q \<longrightarrow> score_ok q"
  shows "score_ok p \<and> (\<forall>k q. perfs' k = Some q \<longrightarrow> score_ok q)"
  using getOrCreatePerformance_cases [OF assms(1)] assms(2)
  by (auto simp: zero_bucket_def score_ok_def split: if_splits)

text \<open>
  The three hooks share one shape: resolve the employee and the department, get or
  create the bucket of a month, change it and save it.
\<close>

lemma onTaskCompleted_shape:
  "onTaskCompleted emp taskId now s =
     update_bucket emp (getMonth now + 1) (getFullYear now)
       (\<lambda>p. p\<lparr> tasksCompleted := tasksCompleted p + 1,
                scoreBreakdown := (scoreBreakdown p)
                  \<lparr>taskPoints := taskPoints (scoreBreakdown p) + POINTS_TASK_COMPLETED\<rparr>,
                totalScore := taskPoints (scoreBreakdown p) + POINTS_TASK_COMPLETED
                              + lateLoginPenalty (scoreBreakdown p) \<rparr>) s"
  by (simp add: onTaskCompleted_def update_bucket_def Performance_save_def Let_def
      split: option.splits)

lemma onLateLogin_shape:
  "onLateLogin emp loginTime s =
     (if \<not> isLateLogin loginTime LATE_LOGIN_THRESHOLD_HOUR LATE_LOGIN_THRESHOLD_MINUTE
      then (None, s)
      else update_bucket emp (getMonth loginTime + 1) (getFullYear loginTime)
       (\<lambda>p. p\<lparr> lateLogins := lateLogins p + 1,
                scoreBreakdown := (scoreBreakdown p)
                  \<lparr>lateLoginPenalty := lateLoginPenalty (scoreBreakdown p)
                                         + POINTS_LATE_LOGIN\<rparr>,
                totalScore := taskPoints (scoreBreakdown p)
                              + (lateLoginPenalty (scoreBreakdown p) + POINTS_LATE_LOGIN) \<rparr>) s)"
  by (simp add: onLateLogin_def update_bucket_def Performance_save_def Let_def
      split: option.splits)

lemma onLeaveApproved_shape:
  "onLeaveApproved emp now s =
     update_bucket emp (getMonth now + 1) (getFullYear now)
       (\<lambda>p. p\<lparr>approvedLeaves := approvedLeaves p + 1\<rparr>) s"
  by (simp add: onLeaveApproved_def update_bucket_def Performance_save_def Let_def
      split: option.splits)

lemma update_bucket_cases:
  "update_bucket emp m y f s = (None, s)
   \<or> (\<exists>d p perfs. getOrCreatePerformance emp m y d (performances s) = Some (p, perfs)
         \<and> update_bucket emp m y f s
             = (Some (f p), s\<lparr>performances := perfs((emp, m, y) \<mapsto> f p)\<rparr>))"
proof (cases "User_findById (users s) emp")
  case None
  then show ?thesis by (simp add: update_bucket_def)
next
  case (Some usr)
  show ?thesis
  proof (cases "truthy (department usr)")
    case False
    with Some show ?thesis by (simp add: update_bucket_def)
  next
    case True
    show ?thesis
    proof (cases "getOrCreatePerformance emp m y (the (department usr)) (performances s)")
      case None
      with Some True show ?thesis by (simp add: update_bucket_def)
    next
      case (Some pp)
      obtain p perfs where pp: "pp = (p, perfs)" by (cases pp)
      have "update_bucket emp m y f s
             = (Some (f p), s\<lparr>performances := perfs((emp, m, y) \<mapsto> f p)\<rparr>)"
        using \<open>User_findById (users s) emp = Some usr\<close> True Some pp
        by (simp add: update_bucket_def)
      with Some pp show ?thesis by blast
    qed
  qed
qed

lemma update_bucket_scores_ok:
  assumes "scores_ok s" and "\<And>p. score_ok p \<Longrightarrow> score_ok (f p)"
  shows "scores_ok (snd (update_bucket emp m y f s))"
  using update_bucket_cases [of emp m y f s]
proof
  assume "update_bucket emp m y f s = (None, s)"
  with assms(1) show ?thesis by simp
next
  assume "\<exists>d p perfs. getOrCreatePerformance emp m y d (performances s) = Some (p, perfs)
         \<and> update_bucket emp m y f s
             = (Some (f p), s\<lparr>performances := perfs((emp, m, y) \<mapsto> f p)\<rparr>)"
  then obtain d p perfs where
    g: "getOrCreatePerformance emp m y d (performances s) = Some (p, perfs)"
    and u: "update_bucket emp m y f s
             = (Some (f p), s\<lparr>performances := perfs((emp, m, y) \<mapsto> f p)\<rparr>)"
    by blast
  from getOrCreatePerformance_score_ok [OF g] assms(1)
  have p: "score_ok p" and rest: "\<forall>k q. perfs k = Some q \<longrightarrow> score_ok q"
    by (simp_all add: scores_ok_def)
  from p have "score_ok (f p)" by (rule assms(2))
  with rest u show ?thesis by (simp add: scores_ok_def)
qed

lemma onTaskCompleted_scores_ok:
  "scores_ok s \<Longrightarrow> scores_ok (snd (onTaskCompleted emp taskId now s))"
  unfolding onTaskCompleted_shape
  by (rule update_bucket_scores_ok) (simp_all add: score_ok_def)

lemma onLateLogin_scores_ok:
  "scores_ok s \<Longrightarrow> scores_ok (snd (onLateLogin emp loginTime s))"
  unfolding onLateLogin_shape
  by (simp add: update_bucket_scores_ok score_ok_def)

lemma onLeaveApproved_scores_ok:
  "scores_ok s \<Longrightarrow> scores_ok (snd (onLeaveApproved emp now s))"
  unfolding onLeaveApproved_shape
  by (rule update_bucket_scores_ok) (simp_all add: score_ok_def)

lemma update_bucket_Some:
  assumes "update_bucket emp m y f s = (Some q, s')"
  shows "\<exists>p. q = f p"
  using assms update_bucket_cases [of emp m y f s] by auto

lemma onTaskCompleted_recomputes:
  assumes "onTaskCompleted emp taskId now s = (Some q, s')"
  shows "score_ok q"
proof -
  from assms obtain p where
    "q = p\<lparr> tasksCompleted := tasksCompleted p + 1,
            scoreBreakdown := (scoreBreakdown p)
              \<lparr>taskPoints := taskPoints (scoreBreakdown p) + POINTS_TASK_COMPLETED\<rparr>,
            totalScore := taskPoints (scoreBreakdown p) + POINTS_TASK_COMPLETED
                          + lateLoginPenalty (scoreBreakdown p) \<rparr>"
    unfolding onTaskCompleted_shape by (blast dest: update_bucket_Some)
  then show ?thesis by (simp add: score_ok_def)
qed

lemma onLateLogin_recomputes:
  assumes "onLateLogin emp loginTime s = (Some q, s')"
  shows "score_ok q"
proof -
  from assms have
    "update_bucket emp (getMonth loginTime + 1) (getFullYear loginTime)
       (\<lambda>p. p\<lparr> lateLogins := lateLogins p + 1,
                scoreBreakdown := (scoreBreakdown p)
                  \<lparr>lateLoginPenalty := lateLoginPenalty (scoreBreakdown p)
                                         + POINTS_LATE_LOGIN\<rparr>,
                totalScore := taskPoints (scoreBreakdown p)
                              + (lateLoginPenalty (scoreBreakdown p) + POINTS_LATE_LOGIN) \<rparr>) s
     = (Some q, s')"
    unfolding onLateLogin_shape by (simp split: if_splits)
  then obtain p where
    "q = p\<lparr> lateLogins := lateLogins p + 1,
            scoreBreakdown := (scoreBreakdown p)
              \<lparr>lateLoginPenalty := lateLoginPenalty (scoreBreakdown p) + POINTS_LATE_LOGIN\<rparr>,
            totalScore := taskPoints (scoreBreakdown p)
                          + (lateLoginPenalty (scoreBreakdown p) + POINTS_LATE_LOGIN) \<rparr>"
    by (blast dest: update_bucket_Some)
  then show ?thesis by (simp add: score_ok_def)
qed

lemma perf_step_scores_ok: "scores_ok s \<Longrightarrow> scores_ok (perf_step s c)"
  by (cases c)
    (simp_all add: onTaskCompleted_scores_ok onLateLogin_scores_ok onLeaveApproved_scores_ok)

lemma perf_run_scores_ok: "scores_ok s \<Longrightarrow> scores_ok (perf_run calls s)"
  unfolding perf_run_def
  by (induction calls arbitrary: s) (simp_all add: perf_step_scores_ok)

text \<open>
  C6. After any finite sequence of onTaskCompleted, onLateLogin and onLeaveApproved calls,
  every Performance bucket of the store has totalScore = taskPoints + lateLoginPenalty,
  provided the buckets the sequence started from had (a store without buckets does, and a
  bucket is created with all counters at zero). The two hooks that change the score write
  totalScore as that sum of the two fields, whatever it was before.
\<close>

theorem totalScore_never_drifts:
  "(scores_ok s \<and> performances (perf_run calls s) k = Some p \<longrightarrow>
      totalScore p = taskPoints (scoreBreakdown p) + lateLoginPenalty (scoreBreakdown p))
   \<and> (onTaskCompleted emp taskId now s = (Some q, s') \<longrightarrow>
      totalScore q = taskPoints (scoreBreakdown q) + lateLoginPenalty (scoreBreakdown q))
   \<and> (onLateLogin emp loginTime s = (Some q, s') \<longrightarrow>
      totalScore q = taskPoints (scoreBreakdown q) + lateLoginPenalty (scoreBreakdown q))"
proof (intro conjI impI)
  assume a: "scores_ok s \<and> performances (perf_run calls s) k = Some p"
  then have "scores_ok (perf_run calls s)" by (simp add: perf_run_scores_ok)
  with a have "score_ok p" unfolding scores_ok_def by blast
  then show "totalScore p = taskPoints (scoreBreakdown p) + lateLoginPenalty (scoreBreakdown p)"
    by (simp add: score_ok_def)
next
  assume "onTaskCompleted emp taskId now s = (Some q, s')"
  then have "score_ok q" by (rule onTaskCompleted_recomputes)
  then show "totalScore q = taskPoints (scoreBreakdown q) + lateLoginPenalty (scoreBreakdown q)"
    by (simp add: score_ok_def)
next
  assume "onLateLogin emp loginTime s = (Some q, s')"
  then have "score_ok q" by (rule onLateLogin_recomputes)
  then show "totalScore q = taskPoints (scoreBreakdown q) + lateLoginPenalty (scoreBreakdown q)"
    by (simp add: score_ok_def)
qed


lemma march_calls_run:
  "performances (perf_run march_calls company_db) (5, 3, 2025) = Some march_bucket"
  by (simp add: perf_run_def march_calls_def onTaskCompleted_shape onLateLogin_shape
      onLeaveApproved_shape update_bucket_def company_db_def empty_db_def
      User_findById_def founder_u_def cofounder_u_def tech_head_u_def sales_head_u_def
      tech_emp_u_def sales_emp_u_def truthy_def getOrCreatePerformance_def
      Performance_valid_def departments_def noon_def late_0945_def isLateLogin_def
      LATE_LOGIN_THRESHOLD_HOUR_def LATE_LOGIN_THRESHOLD_MINUTE_def
      POINTS_TASK_COMPLETED_def POINTS_LATE_LOGIN_def march_bucket_def Let_def)

theorem totalScore_never_drifts_witness:
  "scores_ok company_db
   \<and> performances (perf_run march_calls company_db) (5, 3, 2025) = Some march_bucket
   \<and> totalScore march_bucket
       = taskPoints (scoreBreakdown march_bucket) + lateLoginPenalty (scoreBreakdown march_bucket)
   \<and> totalScore march_bucket = 5"
proof -
  have ok: "scores_ok company_db"
    by (simp add: scores_ok_def company_db_def empty_db_def)
  from ok march_calls_run
    totalScore_never_drifts [of company_db march_calls "(5, 3, 2025)" march_bucket]
  have "totalScore march_bucket
       = taskPoints (scoreBreakdown march_bucket) + lateLoginPenalty (scoreBreakdown march_bucket)"
    by blast
  with ok march_calls_run show ?thesis by (simp add: march_bucket_def)
qed

section \<open>Properties: late logins\<close>

lemma isLateLogin_after_0930:
  assumes "getMinutes t < 60"
  shows "isLateLogin t LATE_LOGIN_THRESHOLD_HOUR LATE_LOGIN_THRESHOLD_MINUTE = after_0930 t"
  using assms
  by (auto simp: isLateLogin_def after_0930_def LATE_LOGIN_THRESHOLD_HOUR_def
      LATE_LOGIN_THRESHOLD_MINUTE_def)

lemma getOrCreatePerformance_bucket_or_zero:
  assumes "d \<in> set departments" and "m \<ge> 1" and "m \<le> 12"
  shows "getOrCreatePerformance emp m y d perfs
         = Some (bucket_or_zero perfs emp m y d,
                 perfs((emp, m, y) \<mapsto> bucket_or_zero perfs emp m y d))"
  using assms
  by (auto simp: getOrCreatePerformance_def bucket_or_zero_def zero_bucket_def
      Performance_valid_def Let_def split: option.splits)

text \<open>
  C7. With the login time read by its hour and minute: a login at or before 09:30 leaves
  the store unchanged; a login strictly after 09:30 by an employee with a department adds
  1 to lateLogins and -5 to lateLoginPenalty of one bucket and touches no other bucket.
  That bucket is keyed by the month and year of the login timestamp itself (the hook does
  not read the clock), and is created with zero counters when it does not exist.
\<close>

theorem onLateLogin_penalty_in_login_month:
  assumes "getMinutes t < 60"
  shows "(\<not> after_0930 t \<longrightarrow> onLateLogin emp t s = (None, s))
   \<and> (after_0930 t \<and> User_findById (users s) emp = Some usr \<and> department usr = Some d
        \<and> d \<in> set departments \<and> getMonth t < 12 \<longrightarrow>
        (\<exists>p'. onLateLogin emp t s
                = (Some p', s\<lparr>performances :=
                     (performances s)((emp, getMonth t + 1, getFullYear t) \<mapsto> p')\<rparr>)
          \<and> lateLogins p'
              = lateLogins (bucket_or_zero (performances s) emp (getMonth t + 1)
                              (getFullYear t) d) + 1
          \<and> lateLoginPenalty (scoreBreakdown p')
              = lateLoginPenalty (scoreBreakdown (bucket_or_zero (performances s) emp
                                    (getMonth t + 1) (getFullYear t) d)) - 5
          \<and> taskPoints (scoreBreakdown p')
              = taskPoints (scoreBreakdown (bucket_or_zero (performances s) emp
                              (getMonth t + 1) (getFullYear t) d))
          \<and> totalScore p'
              = taskPoints (scoreBreakdown p') + lateLoginPenalty (scoreBreakdown p')))"
proof (intro conjI impI)
  assume "\<not> after_0930 t"
  with assms show "onLateLogin emp t s = (None, s)"
    by (simp add: onLateLogin_shape isLateLogin_after_0930)
next
  assume a: "after_0930 t \<and> User_findById (users s) emp = Some usr \<and> department usr = Some d
        \<and> d \<in> set departments \<and> getMonth t < 12"
  then have d: "truthy (department usr)" "the (department usr) = d"
    by (auto simp: truthy_def departments_def)
  from a have g: "getOrCreatePerformance emp (getMonth t + 1) (getFullYear t) d (performances s)
      = Some (bucket_or_zero (performances s) emp (getMonth t + 1) (getFullYear t) d,
              (performances s)((emp, getMonth t + 1, getFullYear t)
                 \<mapsto> bucket_or_zero (performances s) emp (getMonth t + 1) (getFullYear t) d))"
    by (intro getOrCreatePerformance_bucket_or_zero) simp_all
  from a assms have late:
    "isLateLogin t LATE_LOGIN_THRESHOLD_HOUR LATE_LOGIN_THRESHOLD_MINUTE"
    by (simp add: isLateLogin_after_0930)
  show "\<exists>p'. onLateLogin emp t s
                = (Some p', s\<lparr>performances :=
                     (performances s)((emp, getMonth t + 1, getFullYear t) \<mapsto> p')\<rparr>)
          \<and> lateLogins p'
              = lateLogins (bucket_or_zero (performances s) emp (getMonth t + 1)
                              (getFullYear t) d) + 1
          \<and> lateLoginPenalty (scoreBreakdown p')
              = lateLoginPenalty (scoreBreakdown (bucket_or_zero (performances s) emp
                                    (getMonth t + 1) (getFullYear t) d)) - 5
          \<and> taskPoints (scoreBreakdown p')
              = taskPoints (scoreBreakdown (bucket_or_zero (performances s) emp
                              (getMonth t + 1) (getFullYear t) d))
          \<and> totalScore p'
              = taskPoints (scoreBreakdown p') + lateLoginPenalty (scoreBreakdown p')"
    using a d g late
    by (simp add: onLateLogin_shape update_bucket_def POINTS_LATE_LOGIN_def)
qed


theorem onLateLogin_penalty_in_login_month_witness:
  "getMinutes late_jan31 < 60 \<and> after_0930 late_jan31
   \<and> (\<exists>p'. onLateLogin 5 late_jan31 march_db
              = (Some p', march_db\<lparr>performances :=
                   [(5, 3, 2025) \<mapsto> march_bucket, (5, 1, 2025) \<mapsto> p']\<rparr>)
         \<and> lateLogins p' = 1 \<and> lateLoginPenalty (scoreBreakdown p') = - 5)
   \<and> getMinutes on_time_0930 < 60 \<and> \<not> after_0930 on_time_0930
   \<and> onLateLogin 5 on_time_0930 march_db = (None, march_db)"
proof -
  have t: "getMinutes late_jan31 < 60" "after_0930 late_jan31"
    "getMinutes on_time_0930 < 60" "\<not> after_0930 on_time_0930"
    by (simp_all add: late_jan31_def on_time_0930_def after_0930_def)
  have u: "User_findById (users march_db) 5 = Some tech_emp_u"
    "department tech_emp_u = Some ''technical''" "''technical'' \<in> set departments"
    "getMonth late_jan31 < 12"
    by (simp_all add: march_db_def company_db_def empty_db_def User_findById_def
        founder_u_def cofounder_u_def tech_head_u_def sales_head_u_def tech_emp_u_def
        departments_def late_jan31_def)
  have z: "bucket_or_zero (performances march_db) 5 (getMonth late_jan31 + 1)
             (getFullYear late_jan31) ''technical'' = zero_bucket 5 1 2025 ''technical''"
    by (simp add: bucket_or_zero_def march_db_def late_jan31_def)
  have k: "(getMonth late_jan31 + 1, getFullYear late_jan31) = (1, 2025)"
    by (simp add: late_jan31_def)
  from t(1,2) u z k
    onLateLogin_penalty_in_login_month [OF t(1), of 5 march_db tech_emp_u "''technical''"]
  have a: "\<exists>p'. onLateLogin 5 late_jan31 march_db
              = (Some p', march_db\<lparr>performances :=
                   [(5, 3, 2025) \<mapsto> march_bucket, (5, 1, 2025) \<mapsto> p']\<rparr>)
         \<and> lateLogins p' = 1 \<and> lateLoginPenalty (scoreBreakdown p') = - 5"
    by (auto simp: zero_bucket_def march_db_def)
  from t(3,4) onLateLogin_penalty_in_login_month [OF t(3), of 5 march_db]
  have b: "onLateLogin 5 on_time_0930 march_db = (None, march_db)"
    by simp
  from t a b show ?thesis by simp
qed

section \<open>Properties: the request state machine\<close>











section \<open>Properties: completing a task\<close>

lemma str_eval:
  "toLowerCase (extname ''report.csv'') = ''.csv''"
  "toLowerCase (extname ''Report2.CSV'') = ''.csv''"
  "toLowerCase (extname ''audit.pdf'') = ''.pdf''"
  by (simp_all add: toLowerCase_def extname_def Let_def)

lemma removeAll_insert_same: "removeAll p (List.insert p xs) = removeAll p xs"
  by (simp add: List.insert_def)

lemma completed_task_refused_handler:
  assumes "Task_findById (tasks s) i = Some tsk" and "t_status tsk = ''completed''"
  shows "\<exists>e s'. completeTaskHandler usr i req_file now s = (Inl e, s')
           \<and> tasks s' = tasks s \<and> submissions s' = submissions s"
  using assms
  by (auto simp: completeTaskHandler_def unlink_and_reply_def Let_def split: option.splits)

lemma completed_task_refused:
  assumes "Task_findById (tasks s) i = Some tsk" and "t_status tsk = ''completed''"
  shows "\<exists>e s'. POST_tasks_complete usr i req_file now s = (Inl e, s')
           \<and> tasks s' = tasks s \<and> submissions s' = submissions s"
proof (cases req_file)
  case None
  with completed_task_refused_handler [OF assms, of usr None now]
  show ?thesis by (simp add: POST_tasks_complete_def)
next
  case (Some f)
  show ?thesis
  proof (cases "\<not> fileFilter f \<or> f_size f > 10 * 1024 * 1024")
    case True
    with Some show ?thesis by (simp add: POST_tasks_complete_def)
  next
    case False
    from assms have "Task_findById (tasks (s\<lparr>files := List.insert (f_path f) (files s)\<rparr>)) i
        = Some tsk" by simp
    from completed_task_refused_handler [OF this assms(2), of usr "Some f" now] Some False
    show ?thesis by (simp add: POST_tasks_complete_def)
  qed
qed

lemma completed_task_conflict:
  assumes "Task_findById (tasks s) i = Some tsk" and "t_status tsk = ''completed''"
    and "assignedTo tsk = uid usr"
    and "toLowerCase (extname (originalname f)) \<in> {''.pdf'', ''.csv''}"
    and "f_size f \<le> 10 * 1024 * 1024"
  shows "POST_tasks_complete usr i (Some f) now s
           = (Inl (HttpError 400 ''Task is already completed''),
              s\<lparr>files := removeAll (f_path f) (files s)\<rparr>)"
  using assms
  by (auto simp: POST_tasks_complete_def fileFilter_def completeTaskHandler_def
      unlink_and_reply_def Let_def removeAll_insert_same)

lemma TaskSubmission_create_distinct:
  assumes "TaskSubmission_create t u fname ftype fsize fpath at dept subs = Inr (doc, subs')"
    and "distinct (map sub_task subs)"
  shows "distinct (map sub_task subs')"
  using assms
  by (auto simp: TaskSubmission_create_def Let_def split: if_splits)

lemma completeTaskHandler_submissions:
  "submissions (snd (completeTaskHandler usr i req_file now s)) = submissions s
   \<or> (\<exists>t u fname ftype fsize fpath at dept doc.
         TaskSubmission_create t u fname ftype fsize fpath at dept (submissions s)
           = Inr (doc, submissions (snd (completeTaskHandler usr i req_file now s))))"
  by (auto simp: completeTaskHandler_def unlink_and_reply_def Let_def
      split: option.splits sum.splits)


lemma POST_tasks_complete_distinct:
  assumes "distinct (map sub_task (submissions s))"
  shows "distinct (map sub_task (submissions (snd (POST_tasks_complete usr i req_file now s))))"
proof -
  have h: "distinct (map sub_task (submissions (snd (completeTaskHandler usr i rf now s0))))"
    if "distinct (map sub_task (submissions s0))" for rf s0
    using completeTaskHandler_submissions [of usr i rf now s0] that
    by (auto dest: TaskSubmission_create_distinct)
  show ?thesis
    using assms h [of s None]
      h [of "s\<lparr>files := List.insert (f_path (the req_file)) (files s)\<rparr>" req_file]
    by (auto simp: POST_tasks_complete_def split: option.splits)
qed

lemma attempts_distinct:
  "distinct (map sub_task (submissions s))
     \<Longrightarrow> distinct (map sub_task (submissions (foldl attempt_step s attempts)))"
  by (induction attempts arbitrary: s)
    (simp_all add: attempt_step_def POST_tasks_complete_distinct)

lemma distinct_at_most_one:
  "distinct (map f xs) \<Longrightarrow> length (filter (\<lambda>x. f x = a) xs) \<le> 1"
proof (induction xs)
  case Nil
  then show ?case by simp
next
  case (Cons x xs)
  show ?case
  proof (cases "f x = a")
    case True
    from Cons.prems have "f x \<notin> f ` set xs" by simp
    with True have "\<forall>y\<in>set xs. f y \<noteq> a" by blast
    then have "filter (\<lambda>y. f y = a) xs = []"
      by (simp add: filter_empty_conv)
    with True show ?thesis by simp
  next
    case False
    with Cons show ?thesis by simp
  qed
qed

text \<open>
  C4. A completion attempt on a task whose status is completed is always refused, and
  neither the tasks nor the submissions change; when it comes from the assignee with a
  pdf or csv file the answer is the conflict 400 "Task is already completed" and the
  uploaded file is removed. Over any sequence of attempts on any tasks the task
  references of the submissions stay pairwise distinct, so a task has at most one.
\<close>

theorem second_completion_refused:
  "(Task_findById (tasks s) i = Some tsk \<and> t_status tsk = ''completed'' \<longrightarrow>
      (\<exists>e s'. POST_tasks_complete usr i req_file now s = (Inl e, s')
          \<and> tasks s' = tasks s \<and> submissions s' = submissions s))
   \<and> (Task_findById (tasks s) i = Some tsk \<and> t_status tsk = ''completed''
        \<and> assignedTo tsk = uid usr
        \<and> toLowerCase (extname (originalname f)) \<in> {''.pdf'', ''.csv''}
        \<and> f_size f \<le> 10 * 1024 * 1024 \<longrightarrow>
      POST_tasks_complete usr i (Some f) now s
        = (Inl (HttpError 400 ''Task is already completed''),
           s\<lparr>files := removeAll (f_path f) (files s)\<rparr>))
   \<and> (distinct (map sub_task (submissions s)) \<longrightarrow>
      distinct (map sub_task (submissions (foldl attempt_step s attempts)))
      \<and> length (submissions_of j (foldl attempt_step s attempts)) \<le> 1)"
proof (intro conjI impI)
  assume "Task_findById (tasks s) i = Some tsk \<and> t_status tsk = ''completed''"
  then show "\<exists>e s'. POST_tasks_complete usr i req_file now s = (Inl e, s')
          \<and> tasks s' = tasks s \<and> submissions s' = submissions s"
    using completed_task_refused by blast
next
  assume "Task_findById (tasks s) i = Some tsk \<and> t_status tsk = ''completed''
        \<and> assignedTo tsk = uid usr
        \<and> toLowerCase (extname (originalname f)) \<in> {''.pdf'', ''.csv''}
        \<and> f_size f \<le> 10 * 1024 * 1024"
  then show "POST_tasks_complete usr i (Some f) now s
        = (Inl (HttpError 400 ''Task is already completed''),
           s\<lparr>files := removeAll (f_path f) (files s)\<rparr>)"
    using completed_task_conflict by blast
next
  assume d: "distinct (map sub_task (submissions s))"
  then show d': "distinct (map sub_task (submissions (foldl attempt_step s attempts)))"
    by (rule attempts_distinct)
  then show "length (submissions_of j (foldl attempt_step s attempts)) \<le> 1"
    unfolding submissions_of_def by (rule distinct_at_most_one)
qed


lemma first_attempt_runs:
  "POST_tasks_complete tech_emp_u 1 (Some report_csv) noon tasks_db
     = (Inr (completed_report_task, report_submission), after_first)"
  by (simp add: POST_tasks_complete_def fileFilter_def completeTaskHandler_def
      TaskSubmission_create_def TaskSubmission_errors_def Task_findById_def Task_save_def
      tasks_db_def after_first_def
      company_db_def empty_db_def report_task_def report_csv_def completed_report_task_def
      report_submission_def tech_emp_u_def truthy_def str_eval Let_def)

lemma second_attempt_facts:
  "Task_findById (tasks after_first) 1 = Some completed_report_task"
  "t_status completed_report_task = ''completed''"
  "assignedTo completed_report_task = uid tech_emp_u"
  "toLowerCase (extname (originalname report_csv2)) \<in> {''.pdf'', ''.csv''}"
  "f_size report_csv2 \<le> 10 * 1024 * 1024"
  "removeAll (f_path report_csv2) (files after_first) = files after_first"
  "distinct (map sub_task (submissions tasks_db))"
  by (simp_all add: after_first_def Task_findById_def completed_report_task_def
      report_task_def tech_emp_u_def report_csv2_def str_eval tasks_db_def company_db_def
      empty_db_def)

theorem second_completion_refused_witness:
  "POST_tasks_complete tech_emp_u 1 (Some report_csv) noon tasks_db
     = (Inr (completed_report_task, report_submission), after_first)
   \<and> POST_tasks_complete tech_emp_u 1 (Some report_csv2) noon after_first
     = (Inl (HttpError 400 ''Task is already completed''), after_first)
   \<and> (\<exists>e s'. POST_tasks_complete sales_emp_u 1 None noon after_first = (Inl e, s')
          \<and> tasks s' = tasks after_first \<and> submissions s' = submissions after_first)
   \<and> submissions (foldl attempt_step tasks_db two_attempts) = [report_submission]
   \<and> length (submissions_of 1 (foldl attempt_step tasks_db two_attempts)) \<le> 1"
proof -
  from second_attempt_facts
    second_completion_refused [of after_first 1 completed_report_task tech_emp_u _ noon
      report_csv2]
  have b: "POST_tasks_complete tech_emp_u 1 (Some report_csv2) noon after_first
     = (Inl (HttpError 400 ''Task is already completed''), after_first)"
    by simp
  from second_attempt_facts(1,2)
    second_completion_refused [of after_first 1 completed_report_task sales_emp_u None noon]
  have c: "\<exists>e s'. POST_tasks_complete sales_emp_u 1 None noon after_first = (Inl e, s')
          \<and> tasks s' = tasks after_first \<and> submissions s' = submissions after_first"
    by simp
  from second_attempt_facts(7)
    second_completion_refused [of tasks_db _ _ _ _ _ _ two_attempts 1]
  have d: "length (submissions_of 1 (foldl attempt_step tasks_db two_attempts)) \<le> 1"
    by simp
  have e: "submissions (foldl attempt_step tasks_db two_attempts) = [report_submission]"
    using first_attempt_runs b
    by (simp add: two_attempts_def attempt_step_def after_first_def)
  from first_attempt_runs b c d e show ?thesis by simp
qed

text \<open>
  What holds of a refused completion: once multer has accepted and written the file,
  every refusal the handler answers itself, with a status other than 500, leaves tasks
  and submissions as they were and removes the uploaded file.
\<close>

lemma refused_completion_cleans_up:
  assumes "POST_tasks_complete usr i (Some f) now s = (Inl (HttpError n msg), s')"
    and "fileFilter f" and "f_size f \<le> 10 * 1024 * 1024"
    and "n \<noteq> 500"
  shows "tasks s' = tasks s \<and> submissions s' = submissions s \<and> f_path f \<notin> set (files s')"
  using assms
  by (auto simp: POST_tasks_complete_def completeTaskHandler_def unlink_and_reply_def Let_def
      split: option.splits if_splits sum.splits)

text \<open>
  C3. The status change and the creation of the TaskSubmission are not one unit. The
  handler saves the task as completed and only then creates the submission; when that
  insert fails (here the schema requires a department and the assignee, a co-founder, has
  none) the catch block removes the file and answers 500, but the task stays completed,
  without a submission.
\<close>

theorem insert_failure_leaves_task_completed:
  "t_status audit_task = ''pending''
   \<and> POST_tasks_complete cofounder_u 9 (Some audit_pdf) noon audit_db
       = (Inl (HttpError 500
            ''TaskSubmission validation failed: department: Path `department` is required.''),
          audit_db\<lparr>tasks := [audit_task\<lparr>t_status := ''completed'', completedAt := Some noon\<rparr>]\<rparr>)
   \<and> submissions audit_db = [] \<and> files audit_db = []"
  by (simp add: POST_tasks_complete_def fileFilter_def completeTaskHandler_def
      TaskSubmission_create_def TaskSubmission_errors_def required_error_def
      Task_findById_def Task_save_def audit_db_def
      company_db_def empty_db_def audit_task_def audit_pdf_def cofounder_u_def truthy_def
      str_eval Let_def)

theorem insert_failure_leaves_task_completed_witness:
  "fst (POST_tasks_complete cofounder_u 9 (Some audit_pdf) noon audit_db)
     = Inl (HttpError 500
         ''TaskSubmission validation failed: department: Path `department` is required.'')
   \<and> map t_status (tasks (snd (POST_tasks_complete cofounder_u 9 (Some audit_pdf) noon audit_db)))
     = [''completed'']
   \<and> submissions (snd (POST_tasks_complete cofounder_u 9 (Some audit_pdf) noon audit_db)) = []
   \<and> files (snd (POST_tasks_complete cofounder_u 9 (Some audit_pdf) noon audit_db)) = []"
  using insert_failure_leaves_task_completed by simp

section \<open>Properties: the list endpoints\<close>

lemma head_includes:
  "str_includes ''technical_head'' ''_head''"
  "str_includes ''sales_head'' ''_head''"
  "str_includes ''finance_head'' ''_head''"
  "\<not> str_includes ''founder'' ''_head''"
  "\<not> str_includes ''co-founder'' ''_head''"
  "\<not> str_includes ''employee'' ''_head''"
  by simp_all

lemma getUsers_by_role:
  assumes "role actor \<in> set validRoles"
  shows "getUsers actor us =
           (if role actor = ''employee''
            then Inl (HttpError 403 ''Employees are not authorized to view user list'')
            else Inr (spec_user_list actor us))"
  using assms
  by (auto simp: validRoles_def getUsers_def spec_user_list_def User_find_def
      spec_visibilityFilter_def user_view_def getDepartmentFromRole_def head_includes)

lemma enforceRoleHierarchy_by_role:
  assumes "role actor \<in> set validRoles"
  shows "User_find (enforceRoleHierarchy actor) us = spec_user_list actor us"
  using assms
  by (auto simp: validRoles_def enforceRoleHierarchy_def spec_user_list_def User_find_def
      spec_visibilityFilter_def user_view_def getDepartmentFromRole_def head_includes)

lemma getTasks_by_role:
  assumes "role actor \<in> set validRoles"
  shows "getTasks actor ts = filter (task_visible actor) ts"
  using assms
  by (auto simp: validRoles_def getTasks_def Task_find_def task_visible_def
      getDepartmentFromRole_def head_includes intro!: filter_cong)

lemma getRequests_by_role:
  assumes "role actor \<in> set validRoles"
  shows "getRequests actor query_status query_type rs =
           filter (\<lambda>r. request_visible actor r \<and> query_narrows query_status query_type r) rs"
  using assms
  by (auto simp: validRoles_def getRequests_def Request_find_def request_visible_def
      query_narrows_def getDepartmentFromRole_def head_includes Let_def intro!: filter_cong)


text \<open>
  C1, as amended. For an actor with one of the six roles: the user list of a founder, a
  co-founder or a department head is exactly the users passing the visibility filter
  (founder all, co-founder all but founders, head the employees of the bound department),
  while an employee is refused with 403 and gets no list. The task list and the request
  list are unrestricted for founder and co-founder, restricted to the bound department for
  a head (whatever the role of the assignee or creator), and to the tasks assigned to,
  or the requests created by, the employee; the request list is further narrowed by the
  optional status and type of the query. The filter that enforceRoleHierarchy computes is
  the visibility filter, for all four kinds of actor.
\<close>

theorem list_endpoints_by_role:
  assumes "role actor \<in> set validRoles"
  shows "getUsers actor us =
           (if role actor = ''employee''
            then Inl (HttpError 403 ''Employees are not authorized to view user list'')
            else Inr (spec_user_list actor us))
       \<and> getTasks actor ts = filter (task_visible actor) ts
       \<and> getRequests actor query_status query_type rs =
           filter (\<lambda>r. request_visible actor r \<and> query_narrows query_status query_type r) rs
       \<and> User_find (enforceRoleHierarchy actor) us = spec_user_list actor us"
  using assms
  by (simp add: getUsers_by_role getTasks_by_role getRequests_by_role
      enforceRoleHierarchy_by_role)

lemma company_spec_lists:
  "spec_user_list tech_head_u (users company_db) = [tech_emp_u]"
  "spec_user_list tech_emp_u (users company_db) = [tech_emp_u]"
  "spec_user_list cofounder_u (users company_db)
     = [cofounder_u, tech_head_u, sales_head_u, tech_emp_u, sales_emp_u]"
  "spec_task_list tech_head_u (users company_db) [report_task, head_task] = [report_task]"
  by (simp_all add: spec_user_list_def spec_task_list_def spec_visibilityFilter_def
      user_view_def task_view_def User_findById_def company_db_def empty_db_def
      founder_u_def cofounder_u_def tech_head_u_def sales_head_u_def tech_emp_u_def
      sales_emp_u_def getDepartmentFromRole_def report_task_def head_task_def)

theorem list_endpoints_by_role_witness:
  "role tech_head_u \<in> set validRoles
   \<and> getUsers tech_head_u (users company_db) = Inr [tech_emp_u]
   \<and> getTasks tech_head_u [report_task, head_task, audit_task] = [report_task, head_task, audit_task]
   \<and> getRequests tech_head_u (Some ''pending'') None [leave_req, approved_req] = [leave_req]
   \<and> User_find (enforceRoleHierarchy tech_head_u) (users company_db) = [tech_emp_u]
   \<and> role tech_emp_u \<in> set validRoles
   \<and> getUsers tech_emp_u (users company_db)
       = Inl (HttpError 403 ''Employees are not authorized to view user list'')
   \<and> getTasks tech_emp_u [report_task, head_task, audit_task] = [report_task]
   \<and> User_find (enforceRoleHierarchy tech_emp_u) (users company_db) = [tech_emp_u]"
proof -
  have v: "role tech_head_u \<in> set validRoles" "role tech_emp_u \<in> set validRoles"
    by (simp_all add: tech_head_u_def tech_emp_u_def validRoles_def)
  from list_endpoints_by_role [OF v(1), of "users company_db" "[report_task, head_task, audit_task]"
      "Some ''pending''" None "[leave_req, approved_req]"] company_spec_lists
  have a: "getUsers tech_head_u (users company_db) = Inr [tech_emp_u]
     \<and> getTasks tech_head_u [report_task, head_task, audit_task] = [report_task, head_task, audit_task]
     \<and> getRequests tech_head_u (Some ''pending'') None [leave_req, approved_req] = [leave_req]
     \<and> User_find (enforceRoleHierarchy tech_head_u) (users company_db) = [tech_emp_u]"
    by (simp add: tech_head_u_def task_visible_def request_visible_def query_narrows_def
        truthy_def getDepartmentFromRole_def report_task_def head_task_def audit_task_def
        leave_req_def approved_req_def)
  from list_endpoints_by_role [OF v(2), of "users company_db" "[report_task, head_task, audit_task]"]
    company_spec_lists
  have b: "getUsers tech_emp_u (users company_db)
       = Inl (HttpError 403 ''Employees are not authorized to view user list'')
     \<and> getTasks tech_emp_u [report_task, head_task, audit_task] = [report_task]
     \<and> User_find (enforceRoleHierarchy tech_emp_u) (users company_db) = [tech_emp_u]"
    by (simp add: tech_emp_u_def task_visible_def report_task_def head_task_def audit_task_def)
  from v a b show ?thesis by simp
qed

text \<open>
  C1 as stated fails on two lists. An employee who asks for the user list gets 403, not
  the list holding their own record; and a department head's task list holds every task
  of the department, here one assigned to the head, whose role is not employee.
\<close>

theorem list_endpoints_counterexample:
  "getUsers tech_emp_u (users company_db)
     = Inl (HttpError 403 ''Employees are not authorized to view user list'')
   \<and> spec_user_list tech_emp_u (users company_db) = [tech_emp_u]
   \<and> getUsers tech_emp_u (users company_db) \<noteq> Inr (spec_user_list tech_emp_u (users company_db))
   \<and> getTasks tech_head_u [report_task, head_task] = [report_task, head_task]
   \<and> spec_task_list tech_head_u (users company_db) [report_task, head_task] = [report_task]
   \<and> set (getTasks tech_head_u [report_task, head_task])
       \<noteq> set (spec_task_list tech_head_u (users company_db) [report_task, head_task])"
proof -
  have a: "getUsers tech_emp_u (users company_db)
     = Inl (HttpError 403 ''Employees are not authorized to view user list'')"
    by (simp add: getUsers_def tech_emp_u_def)
  have b: "getTasks tech_head_u [report_task, head_task] = [report_task, head_task]"
    by (simp add: getTasks_def Task_find_def tech_head_u_def getDepartmentFromRole_def
        report_task_def head_task_def)
  have c: "head_task \<noteq> report_task"
    by (simp add: report_task_def head_task_def)
  from a b c company_spec_lists show ?thesis by auto
qed

end
